theory Spec2Isabelle
  imports Main "HOL-Library.Sublist"
begin

section \<open>JavaScript strings\<close>

text \<open>
  A JavaScript string is a sequence of UTF-16 code units. The model uses \<^typ>\<open>string\<close>, whose
  characters are the code units 0..255 (the Basic Latin and Latin-1 Supplement blocks), and
  gives every string primitive the meaning it has in ECMAScript on that range.
\<close>

definition isUpper :: "char \<Rightarrow> bool" where
  "isUpper c = (let n = (of_char c :: nat) in
     (65 \<le> n \<and> n \<le> 90) \<or> (192 \<le> n \<and> n \<le> 222 \<and> n \<noteq> 215))"

text \<open>
  \<open>String.prototype.toLowerCase\<close>: the lower-case letter of \<open>A\<close>..\<open>Z\<close> and of the
  Latin-1 capitals (U+00C0..U+00DE without the multiplication sign U+00D7) is 32 code points
  above; bit 5 is clear in both ranges, so adding 32 is setting that bit.
\<close>

definition toLowerChar :: "char \<Rightarrow> char" where
  "toLowerChar c = (if isUpper c
     then Char (digit0 c) (digit1 c) (digit2 c) (digit3 c) (digit4 c) True (digit6 c) (digit7 c)
     else c)"

definition toLowerCase :: "string \<Rightarrow> string" where
  "toLowerCase s = map toLowerChar s"

text \<open>
  Line terminators (what \<open>.\<close> does not match) are LF and CR; white space (what \<open>trim\<close> removes
  and \<open>\s\<close> matches) is TAB, LF, VT, FF, CR, SPACE and NBSP; word characters (\<open>\w\<close>, and what
  \<open>\b\<close> looks at) are \<open>[A-Za-z0-9_]\<close>.
\<close>

definition isLineTerminator :: "char \<Rightarrow> bool" where
  "isLineTerminator c = (let n = (of_char c :: nat) in n = 10 \<or> n = 13)"

definition isWhiteSpace :: "char \<Rightarrow> bool" where
  "isWhiteSpace c = (let n = (of_char c :: nat) in (9 \<le> n \<and> n \<le> 13) \<or> n = 32 \<or> n = 160)"

definition isWordChar :: "char \<Rightarrow> bool" where
  "isWordChar c = (let n = (of_char c :: nat) in
     (48 \<le> n \<and> n \<le> 57) \<or> (65 \<le> n \<and> n \<le> 90) \<or> n = 95 \<or> (97 \<le> n \<and> n \<le> 122))"

definition trim :: "string \<Rightarrow> string" where
  "trim s = rev (dropWhile isWhiteSpace (rev (dropWhile isWhiteSpace s)))"

definition startsWith :: "string \<Rightarrow> string \<Rightarrow> bool" where
  "startsWith s w = prefix w s"

definition endsWith :: "string \<Rightarrow> string \<Rightarrow> bool" where
  "endsWith s w = suffix w s"

primrec includes_str :: "string \<Rightarrow> string \<Rightarrow> bool" where
  "includes_str [] w = (w = [])"
| "includes_str (c # cs) w = (prefix w (c # cs) \<or> includes_str cs w)"

text \<open>\<open>s.split(' ')\<close>: the pieces between single spaces; never an empty array.\<close>

primrec split_sp :: "string \<Rightarrow> string list" where
  "split_sp [] = [[]]"
| "split_sp (c # cs) =
     (if c = CHR '' '' then [] # split_sp cs
      else (case split_sp cs of [] \<Rightarrow> [[c]] | w # ws \<Rightarrow> (c # w) # ws))"

text \<open>\<open>a.join(' ')\<close>.\<close>

fun join_sp :: "string list \<Rightarrow> string" where
  "join_sp [] = []"
| "join_sp [w] = w"
| "join_sp (w # ws) = w @ '' '' @ join_sp ws"

section \<open>Regular-expression tests\<close>

text \<open>
  The classifier only asks whether a pattern matches (\<open>RegExp.prototype.test\<close>), so a pattern
  is a test on the text at the current position that hands the rest of the text to the test
  of what follows it in the pattern.
\<close>

definition accept :: "string \<Rightarrow> bool" where
  "accept s = True"

text \<open>\<open>$\<close> (no \<open>m\<close> flag): the end of the text.\<close>

definition eos :: "string \<Rightarrow> bool" where
  "eos s = (s = [])"

definition lit :: "string \<Rightarrow> (string \<Rightarrow> bool) \<Rightarrow> string \<Rightarrow> bool" where
  "lit w k s = (prefix w s \<and> k (drop (length w) s))"

text \<open>\<open>(w1|w2|...)\<close>.\<close>

definition alts :: "string list \<Rightarrow> (string \<Rightarrow> bool) \<Rightarrow> string \<Rightarrow> bool" where
  "alts ws k s = list_ex (\<lambda>w. lit w k s) ws"

text \<open>\<open>.*\<close>: any number of characters that are not line terminators.\<close>

primrec dotStar :: "(string \<Rightarrow> bool) \<Rightarrow> string \<Rightarrow> bool" where
  "dotStar k [] = k []"
| "dotStar k (c # cs) = (k (c # cs) \<or> (\<not> isLineTerminator c \<and> dotStar k cs))"

text \<open>A pattern with no \<open>^\<close> is tried at every position of the text.\<close>

primrec search :: "(string \<Rightarrow> bool) \<Rightarrow> string \<Rightarrow> bool" where
  "search p [] = p []"
| "search p (c # cs) = (p (c # cs) \<or> search p cs)"

text \<open>
  \<open>\b\<close> holds between two characters of which exactly one is a word character; the text's
  two ends count as non-word characters. \<open>prev\<close> says whether the character before the
  position is a word character.
\<close>

definition wordBoundary :: "bool \<Rightarrow> string \<Rightarrow> bool" where
  "wordBoundary prev s = (prev \<noteq> (case s of [] \<Rightarrow> False | c # _ \<Rightarrow> isWordChar c))"

text \<open>\<open>\b(w1|w2|...)\b\<close> at one position; the words are not empty.\<close>

definition wordsAt :: "string list \<Rightarrow> bool \<Rightarrow> string \<Rightarrow> bool" where
  "wordsAt ws prev s =
     (wordBoundary prev s \<and>
      list_ex (\<lambda>w. prefix w s \<and> wordBoundary (isWordChar (last w)) (drop (length w) s)) ws)"

primrec searchFrom :: "(bool \<Rightarrow> string \<Rightarrow> bool) \<Rightarrow> bool \<Rightarrow> string \<Rightarrow> bool" where
  "searchFrom p prev [] = p prev []"
| "searchFrom p prev (c # cs) = (p prev (c # cs) \<or> searchFrom p (isWordChar c) cs)"

definition hasWord :: "string list \<Rightarrow> string \<Rightarrow> bool" where
  "hasWord ws s = searchFrom (wordsAt ws) False s"

section \<open>The conversational/actionable classifier\<close>

text \<open>The array \<open>conversationalPatterns\<close> of \<open>isConversationalInput\<close>, in its order.\<close>

definition conversationalPatterns :: "(string \<Rightarrow> bool) list" where
  "conversationalPatterns =
    [alts [''hi'', ''hello'', ''hey'', ''good morning'', ''good afternoon'', ''good evening''] accept,
     alts [''how are you'', ''what's up'', ''what can you do''] accept,
     alts [''thanks'', ''thank you'', ''goodbye'', ''bye''] accept,
     alts [''who are you'', ''what are you''] accept,
     alts [''please'', ''can you'', ''could you'', ''would you''] accept,
     alts [''tell me'', ''explain'', ''describe''] accept,
     alts [''what do you think'', ''do you like'', ''do you know''] accept,
     search (lit ''will you'' (dotStar (lit ''?'' eos))),
     search (lit ''can you'' (dotStar (lit ''?'' eos))),
     search (lit ''do you'' (dotStar (lit ''?'' eos))),
     search (lit ''are you'' (dotStar (lit ''?'' eos))),
     search (lit ''?'' (\<lambda>s. dotStar (lit ''conversational'' accept) s
                          \<or> alts [''chat'', ''talk'', ''discuss''] accept s))]"

text \<open>The array \<open>commandPatterns\<close>, in its order.\<close>

definition commandPatterns :: "(string \<Rightarrow> bool) list" where
  "commandPatterns =
    [alts [''open'', ''launch'', ''start'', ''run''] accept,
     alts [''list'', ''show'', ''display''] accept,
     alts [''check'', ''verify'', ''test''] accept,
     alts [''search'', ''find'', ''look''] accept,
     alts [''create'', ''make'', ''build''] accept,
     alts [''delete'', ''remove'', ''close''] accept,
     alts [''compile'', ''execute'', ''install''] accept,
     search (\<lambda>s. lit ''disk'' (dotStar (lit ''usage'' accept)) s \<or> lit ''space'' accept s),
     search (lit ''git'' (dotStar (lit ''status'' accept))),
     search (alts [''process'', ''file'', ''directory''] accept)]"

text \<open>\<open>patterns.some(pattern => pattern.test(lower))\<close>.\<close>

definition some_test :: "(string \<Rightarrow> bool) list \<Rightarrow> string \<Rightarrow> bool" where
  "some_test ps s = list_ex (\<lambda>p. p s) ps"

definition hasQuestionWords :: "string \<Rightarrow> bool" where
  "hasQuestionWords lower =
     hasWord [''what'', ''why'', ''how'', ''when'', ''where'', ''who'', ''which''] lower"

definition hasConversationalWords :: "string \<Rightarrow> bool" where
  "hasConversationalWords lower =
     hasWord [''generally'', ''really'', ''actually'', ''maybe'', ''perhaps'', ''think'',
              ''feel'', ''believe''] lower"

definition hasCommandKeywords :: "string \<Rightarrow> bool" where
  "hasCommandKeywords lower =
     hasWord [''usage'', ''status'', ''files'', ''directory'', ''process'', ''disk'', ''space''] lower"

definition isConversationalInput :: "string \<Rightarrow> bool" where
  "isConversationalInput input =
    (let lower = trim (toLowerCase input) in
     if some_test commandPatterns lower then False
     else if some_test conversationalPatterns lower then True
     else
       let hasQuestionMark = includes_str input ''?'' in
       if hasQuestionWords lower \<and> hasQuestionMark \<and> \<not> hasCommandKeywords lower then True
       else if hasConversationalWords lower then True
       else hasQuestionMark \<or> length lower < 15)"

text \<open>The classifier's contract in the specification: actionable is not conversational.\<close>

definition isActionable :: "string \<Rightarrow> bool" where
  "isActionable input = (\<not> isConversationalInput input)"

text \<open>
  The command-intent patterns as the specification lists them, on the lower-cased, trimmed
  text: it begins with one of the listed verbs, or mentions disk usage, git status, or one of
  the nouns process, file, directory.
\<close>

definition commandIntent_spec :: "string \<Rightarrow> bool" where
  "commandIntent_spec lower =
     (list_ex (startsWith lower)
        [''open'', ''launch'', ''list'', ''show'', ''check'', ''search'', ''create'', ''delete'',
         ''compile'', ''execute'', ''install'']
      \<or> list_ex (includes_str lower)
        [''disk usage'', ''git status'', ''process'', ''file'', ''directory''])"

section \<open>The command router\<close>

text \<open>
  What \<open>handleCommand\<close> hands an input to: the other methods of the class and the two
  process primitives it calls (\<open>process.chdir\<close>, and \<open>runShellCommand\<close>, which spawns a
  shell). An argument that may be \<open>undefined\<close> (\<open>args[0]\<close> of a one-word input) is an option.
\<close>

datatype action =
    Chdir string
  | RunShellCommand string
  | RunAI string string
  | StartInteractiveSession string
  | HandleConversation string
  | ProcessNaturalLanguageCommand string
  | ExecuteToolDirective string
  | SwitchModel "string option"
  | HandleTodos "string option" "string list"
  | ShowAnalytics
  | HandleTools "string option" "string list"
  | HandleModels "string option" "string option"
  | HandleKnowledgeScan "string list"
  | HandleIssues "string option" "string list"
  | AchieveGoal string
  | ShowConfig
  | ShowHelp
  | ShowBanner

text \<open>A thrown \<open>Error\<close>: its message, and the flag \<open>isTtyError\<close> the prompt library sets.\<close>

datatype err = Err (message: string) (isTtyError: bool)

text \<open>What the router itself prints, and the trace of one run: calls made and lines printed.\<close>

datatype printed =
    ChangedDirectory
  | ErrorChangingDirectory string
  | ErrorExecutingCommand string
  | ThanksForUsing
  | EmergencyExit
  | InteractiveModeNotSupported
  | ErrorLine string
  | ReceivedCtrlC
  | ShuttingDown
  | UncaughtError string
  | UnhandledRejectionLine string

datatype event = Did action | Out printed

text \<open>
  The collaborators are a parameter: performing an action in a world \<open>'w\<close> gives the new
  world, and the error if the call threw (or its promise rejected).
\<close>

type_synonym 'w perform = "action \<Rightarrow> 'w \<Rightarrow> err option \<times> 'w"

text \<open>\<open>await this.handler(...)\<close>: the call is made; its error, if any, is thrown on.\<close>

definition call :: "'w perform \<Rightarrow> action \<Rightarrow> 'w \<Rightarrow> (err + unit) \<times> event list \<times> 'w" where
  "call perform a w =
     (case perform a w of
        (None, w') \<Rightarrow> (Inr (), [Did a], w')
      | (Some e, w') \<Rightarrow> (Inl e, [Did a], w'))"

text \<open>\<open>args[0]\<close> and \<open>args[1]\<close>.\<close>

definition arg0 :: "string list \<Rightarrow> string option" where
  "arg0 args = (case args of [] \<Rightarrow> None | a # _ \<Rightarrow> Some a)"

definition arg1 :: "string list \<Rightarrow> string option" where
  "arg1 args = (case args of a # b # _ \<Rightarrow> Some b | _ \<Rightarrow> None)"

text \<open>
  The \<open>switch (mode)\<close> of the sigil branch: \<open>None\<close> when no case matches and control leaves
  the \<open>if\<close>. An empty \<open>content\<close> is falsy.
\<close>

definition sigilMode :: "string \<Rightarrow> string \<Rightarrow> action option" where
  "sigilMode mode content =
     (if mode = ''claude'' \<or> mode = ''gemini'' \<or> mode = ''local'' then
        (if content \<noteq> [] then Some (RunAI mode content) else Some (StartInteractiveSession mode))
      else if mode = ''conv'' \<or> mode = ''chat'' then
        Some (HandleConversation (if content \<noteq> [] then content else ''Hello!''))
      else if mode = ''cmd'' \<or> mode = ''command'' then
        Some (ProcessNaturalLanguageCommand content)
      else if mode = ''tool'' then
        Some (ExecuteToolDirective content)
      else None)"

text \<open>The \<open>switch (command.toLowerCase())\<close>: \<open>None\<close> is its \<open>default\<close> case.\<close>

definition namedCommand :: "string \<Rightarrow> string list \<Rightarrow> action option" where
  "namedCommand command args =
     (let c = toLowerCase command in
      if c = ''claude'' then Some (RunAI ''claude'' (join_sp args))
      else if c = ''gemini'' then Some (RunAI ''gemini'' (join_sp args))
      else if c = ''switch'' then Some (SwitchModel (arg0 args))
      else if c = ''todos'' then Some (HandleTodos (arg0 args) (drop 1 args))
      else if c = ''add'' then Some (HandleTodos (Some ''add'') args)
      else if c = ''analytics'' then Some ShowAnalytics
      else if c = ''tools'' then Some (HandleTools (arg0 args) (drop 1 args))
      else if c = ''models'' then Some (HandleModels (arg0 args) (arg1 args))
      else if c = ''scan'' then Some (HandleKnowledgeScan args)
      else if c = ''issues'' then Some (HandleIssues (arg0 args) (drop 1 args))
      else if c = ''achieve'' \<or> c = ''goal'' then Some (AchieveGoal (join_sp args))
      else if c = ''config'' then Some ShowConfig
      else if c = ''help'' then Some ShowHelp
      else if c = ''logo'' \<or> c = ''banner'' then Some ShowBanner
      else None)"

text \<open>
  The body of the \<open>try\<close> block of \<open>handleCommand\<close>. \<open>home\<close> is \<open>os.homedir()\<close>. The
  destructuring \<open>[command, ...args] = input.split(' ')\<close> is \<open>hd\<close> and \<open>tl\<close> of a list that
  is never empty (lemma \<open>split_sp_not_Nil\<close>). The \<open>cd\<close> built-in has a \<open>try\<close> of its own.
\<close>

definition tryBody :: "'w perform \<Rightarrow> string \<Rightarrow> string \<Rightarrow> 'w \<Rightarrow> (err + unit) \<times> event list \<times> 'w" where
  "tryBody perform home input w =
    (let command = hd (split_sp input); args = tl (split_sp input) in
     if startsWith input ''!'' then
       (let shellCommand = trim (drop 1 input) in
        if shellCommand \<noteq> [] then
          (if startsWith shellCommand ''cd'' then
             (let targetDir = trim (drop 2 shellCommand);
                  targetDir = (if targetDir = [] \<or> targetDir = ''~'' then home else targetDir)
              in case perform (Chdir targetDir) w of
                   (None, w') \<Rightarrow> (Inr (), [Did (Chdir targetDir), Out ChangedDirectory], w')
                 | (Some e, w') \<Rightarrow>
                     (Inr (), [Did (Chdir targetDir), Out (ErrorChangingDirectory (message e))], w'))
           else call perform (RunShellCommand shellCommand) w)
        else (Inr (), [], w))
     else
       (case (if startsWith input ''@''
              then (let parts = split_sp (drop 1 input)
                    in sigilMode (hd parts) (join_sp (tl parts)))
              else None) of
          Some a \<Rightarrow> call perform a w
        | None \<Rightarrow>
           (case namedCommand command args of
              Some a \<Rightarrow> call perform a w
            | None \<Rightarrow>
               (if command \<noteq> [] \<and> length (trim input) > 0 then
                  (if isConversationalInput (trim input)
                   then call perform (HandleConversation (trim input)) w
                   else call perform (ProcessNaturalLanguageCommand (trim input)) w)
                else (Inr (), [], w)))))"

text \<open>
  \<open>handleCommand\<close>: the \<open>try\<close> block, and the \<open>catch\<close> that prints the error's message. The
  first component is \<open>Inl e\<close> when the call throws \<open>e\<close> to its caller.
\<close>

definition handleCommand :: "'w perform \<Rightarrow> string \<Rightarrow> string \<Rightarrow> 'w \<Rightarrow> (err + unit) \<times> event list \<times> 'w" where
  "handleCommand perform home input w =
     (case tryBody perform home input w of
        (Inr u, tr, w') \<Rightarrow> (Inr (), tr, w')
      | (Inl e, tr, w') \<Rightarrow> (Inr (), tr @ [Out (ErrorExecutingCommand (message e))], w'))"

text \<open>The calls a trace made, in order.\<close>

definition calls :: "event list \<Rightarrow> action list" where
  "calls tr = concat (map (\<lambda>e. case e of Did a \<Rightarrow> [a] | Out _ \<Rightarrow> []) tr)"

subsection \<open>The interactive loop\<close>









text \<open>Collaborators for concrete runs: every call succeeds; every call throws.\<close>

definition succeed :: "unit perform" where
  "succeed a w = (None, w)"

definition fail_with :: "string \<Rightarrow> unit perform" where
  "fail_with m a w = (Some (Err m False), w)"

section \<open>The intent executor\<close>

text \<open>
  \<open>runIntent\<close> throws plain \<open>Error\<close>s; the constructors name them after the specification's
  taxonomy and keep the message. \<open>CommandFailed\<close> is the rejection of \<open>runCommand\<close>.
\<close>

datatype intent_error =
    UnsupportedTarget string
  | ScriptNotFound string
  | UnknownVerb string
  | NoCommand string
  | CommandFailed string

text \<open>
  What \<open>runIntent\<close> reads from its surroundings: \<open>os.platform()\<close>, \<open>this.scriptsDir\<close>,
  \<open>path.join\<close>, \<open>fs.exists\<close>, \<open>encodeURIComponent\<close>, and \<open>runCommand\<close>, which spawns the
  command in a shell and gives its error message if it fails.
\<close>

record intent_env =
  osType :: string
  scriptsDir :: string
  pathJoin :: "string \<Rightarrow> string \<Rightarrow> string"
  fsExists :: "string \<Rightarrow> bool"
  encodeURIComponent :: "string \<Rightarrow> string"
  runCommand :: "string \<Rightarrow> string option"

text \<open>The text between double quotes, as the template literals write it.\<close>

definition quoted :: "string \<Rightarrow> string" where
  "quoted s = CHR 0x22 # s @ [CHR 0x22]"

text \<open>
  The \<open>switch\<close> of \<open>runIntent\<close>: the command to execute, or the error thrown before any
  command is run.
\<close>

definition commandToExecute :: "intent_env \<Rightarrow> string \<Rightarrow> string \<Rightarrow> intent_error + string" where
  "commandToExecute env verb target =
    (let v = toLowerCase verb in
     if v = ''open'' then
       (if osType env = ''darwin'' then Inr (''open '' @ quoted target)
        else if osType env = ''win32'' then Inr (''start '' @ quoted [] @ '' '' @ quoted target)
        else Inr (''xdg-open '' @ quoted target))
     else if v = ''compile'' then
       (if endsWith target ''.tex'' then Inr (''pdflatex '' @ quoted target)
        else Inl (UnsupportedTarget (''Unsupported compile target: '' @ target)))
     else if v = ''run'' then
       (let scriptPath = pathJoin env (scriptsDir env) target in
        if fsExists env scriptPath then
          (if endsWith target ''.sh'' then
             (if osType env = ''win32''
              then Inl (UnsupportedTarget
                     ''Shell scripts (.sh) not supported on Windows. Use .bat files instead.'')
              else Inr (''bash '' @ quoted scriptPath))
           else if endsWith target ''.bat'' \<and> osType env = ''win32'' then Inr (quoted scriptPath)
           else if endsWith target ''.py'' then
             Inr ((if osType env = ''win32'' then ''python'' else ''python3'') @ '' '' @ quoted scriptPath)
           else if endsWith target ''.js'' then Inr (''node '' @ quoted scriptPath)
           else Inr (quoted scriptPath))
        else Inl (ScriptNotFound (''Script not found: '' @ target)))
     else if v = ''search'' then
       (let url = ''https://www.google.com/search?q='' @ encodeURIComponent env target in
        if osType env = ''win32'' then Inr (''start '' @ quoted [] @ '' '' @ quoted url)
        else if osType env = ''linux'' then Inr (''xdg-open '' @ quoted url)
        else Inr (''open '' @ quoted url))
     else Inl (UnknownVerb (''Unknown intent verb: '' @ verb)))"

text \<open>
  \<open>runIntent\<close>: its result, and the commands it handed to \<open>runCommand\<close>, each of which
  spawns a subprocess.
\<close>

definition runIntent :: "intent_env \<Rightarrow> string \<Rightarrow> string \<Rightarrow> (intent_error + unit) \<times> string list" where
  "runIntent env verb target =
    (case commandToExecute env verb target of
       Inl e \<Rightarrow> (Inl e, [])
     | Inr cmd \<Rightarrow>
        (if cmd \<noteq> [] then
           (case runCommand env cmd of
              None \<Rightarrow> (Inr (), [cmd])
            | Some msg \<Rightarrow> (Inl (CommandFailed msg), [cmd]))
         else (Inl (NoCommand (''Could not determine command for verb: '' @ verb
                               @ '' and target: '' @ target)), [])))"

text \<open>A Windows machine for concrete runs; the flag says whether the scripts are installed.\<close>

definition windows :: "bool \<Rightarrow> intent_env" where
  "windows installed =
     \<lparr>osType = ''win32'', scriptsDir = ''C:/Users/u/.c9ai/scripts'',
      pathJoin = (\<lambda>d f. d @ ''/'' @ f), fsExists = (\<lambda>p. installed),
      encodeURIComponent = (\<lambda>s. s), runCommand = (\<lambda>c. None)\<rparr>"

section \<open>The pattern-to-intent resolver\<close>

subsection \<open>Regular expressions with a capture\<close>

text \<open>
  \<open>String.prototype.match\<close> with a pattern that has no \<open>g\<close> flag gives the first match in
  backtracking order, or \<open>null\<close>. A pattern is a function from the text at the current position
  to the captured group, \<open>None\<close> when it does not match there; what follows a piece of the
  pattern is its continuation, tried again each time the piece backtracks.
\<close>

text \<open>The pattern is tried at each position from the left.\<close>

primrec firstMatch :: "(string \<Rightarrow> 'a option) \<Rightarrow> string \<Rightarrow> 'a option" where
  "firstMatch p [] = p []"
| "firstMatch p (c # cs) = (case p (c # cs) of Some g \<Rightarrow> Some g | None \<Rightarrow> firstMatch p cs)"

text \<open>A literal, and a literal under the \<open>i\<close> flag (the literal is in lower case).\<close>

definition after :: "string \<Rightarrow> (string \<Rightarrow> 'a option) \<Rightarrow> string \<Rightarrow> 'a option" where
  "after w k s = (if prefix w s then k (drop (length w) s) else None)"

definition afterCI :: "string \<Rightarrow> (string \<Rightarrow> 'a option) \<Rightarrow> string \<Rightarrow> 'a option" where
  "afterCI w k s = (if prefix w (toLowerCase s) then k (drop (length w) s) else None)"

text \<open>\<open>\s+\<close>, greedy: the longest run of white space first, then shorter ones.\<close>

primrec spacesThen :: "(string \<Rightarrow> 'a option) \<Rightarrow> string \<Rightarrow> 'a option" where
  "spacesThen k [] = None"
| "spacesThen k (c # cs) =
     (if isWhiteSpace c
      then (case spacesThen k cs of Some g \<Rightarrow> Some g | None \<Rightarrow> k cs)
      else None)"

text \<open>\<open>(.+)\<close> at the end of a pattern: the rest of the line, which must not be empty.\<close>

definition restOfLine :: "string \<Rightarrow> string option" where
  "restOfLine s =
     (let g = takeWhile (\<lambda>c. \<not> isLineTerminator c) s in if g = [] then None else Some g)"

text \<open>
  \<open>(.+?)(?:\s|$)\<close>: one character that is no line terminator, and then as few as possible
  up to white space or the end of the text.
\<close>

definition shortestWord :: "string \<Rightarrow> string option" where
  "shortestWord s =
     (case s of
        [] \<Rightarrow> None
      | c # cs \<Rightarrow> if isLineTerminator c then None
                  else Some (c # takeWhile (\<lambda>x. \<not> isWhiteSpace x) cs))"

text \<open>\<open>.*?\<close> and \<open>[...]*?\<close>, lazy: as few characters as possible first.\<close>

primrec lazyClass :: "(char \<Rightarrow> bool) \<Rightarrow> (string \<Rightarrow> 'a option) \<Rightarrow> string \<Rightarrow> 'a option" where
  "lazyClass cl k [] = k []"
| "lazyClass cl k (c # cs) =
     (case k (c # cs) of
        Some g \<Rightarrow> Some g
      | None \<Rightarrow> if cl c then lazyClass cl k cs else None)"

definition lazyDots :: "(string \<Rightarrow> 'a option) \<Rightarrow> string \<Rightarrow> 'a option" where
  "lazyDots k s = lazyClass (\<lambda>c. \<not> isLineTerminator c) k s"

text \<open>An alternation \<open>(w1|w2|...)\<close> of literals under the \<open>i\<close> flag, in its order.\<close>

primrec firstAltCI :: "string list \<Rightarrow> (string \<Rightarrow> 'a option) \<Rightarrow> string \<Rightarrow> 'a option" where
  "firstAltCI [] k s = None"
| "firstAltCI (w # ws) k s =
     (case afterCI w k s of Some g \<Rightarrow> Some g | None \<Rightarrow> firstAltCI ws k s)"

text \<open>\<open>[a-z\s]\<close> under the \<open>i\<close> flag.\<close>

definition letterOrSpace :: "char \<Rightarrow> bool" where
  "letterOrSpace c = (let n = (of_char c :: nat) in
     (65 \<le> n \<and> n \<le> 90) \<or> (97 \<le> n \<and> n \<le> 122) \<or> isWhiteSpace c)"

text \<open>\<open>/open\s+(.+)/\<close>, \<open>/find\s+(.+)/\<close>, \<open>/run\s+(.+)/\<close>: group 1.\<close>

definition wordThenRest :: "string \<Rightarrow> string \<Rightarrow> string option" where
  "wordThenRest w s = firstMatch (after w (spacesThen restOfLine)) s"

text \<open>\<open>/search.*?(?:for\s+)?(.+?)(?:\s|$)/\<close>: group 1.\<close>

definition searchTermMatch :: "string \<Rightarrow> string option" where
  "searchTermMatch s =
     firstMatch (after ''search''
       (lazyDots (\<lambda>t. case after ''for'' (spacesThen shortestWord) t of
                         Some g \<Rightarrow> Some g
                       | None \<Rightarrow> shortestWord t))) s"

text \<open>
  \<open>/about\s+(.+)/i\<close> and \<open>/(write|create|make)\s+[a-z\s]*?\s+(.+)/i\<close>: the last group of
  the first that matches.
\<close>

definition topicMatch :: "string \<Rightarrow> string option" where
  "topicMatch prompt =
     (case firstMatch (afterCI ''about'' (spacesThen restOfLine)) prompt of
        Some g \<Rightarrow> Some g
      | None \<Rightarrow>
          firstMatch (firstAltCI [''write'', ''create'', ''make'']
            (spacesThen (lazyClass letterOrSpace (spacesThen restOfLine)))) prompt)"

subsection \<open>The cascade\<close>

text \<open>
  The five fixed replies are long literals (with the bullet U+2022, outside the modelled
  range of characters); they are named, not spelled out. Every other reply is computed.
\<close>

datatype canned = GreetingText | HowAreYouText | ThanksText | HelpText | ExitText

datatype reply = Canned canned | Computed string

definition getSuggestions :: "string \<Rightarrow> string" where
  "getSuggestions input =
     (if includes_str input ''excel'' \<or> includes_str input ''spreadsheet''
        then ''Try: '' @ quoted ''open excel''
      else if includes_str input ''file'' \<or> includes_str input ''document''
        then ''Try: '' @ quoted ''list files'' @ '' or '' @ quoted ''open document''
      else if includes_str input ''search'' \<or> includes_str input ''find''
        then ''Try: '' @ quoted ''search for [topic]''
      else if includes_str input ''help''
        then ''Try: '' @ quoted ''help'' @ '' for available commands''
      else ''Try commands like: '' @ quoted ''open excel'' @ '', '' @ quoted ''list files''
             @ '', '' @ quoted ''search for tutorials'' @ '', or '' @ quoted ''help'')"

text \<open>The application the open rule names.\<close>

definition openApp :: "string \<Rightarrow> string" where
  "openApp taskLower =
     (if includes_str taskLower ''excel'' \<or> includes_str taskLower ''spreadsheet'' then ''excel''
      else if includes_str taskLower ''word'' \<or> includes_str taskLower ''document'' then ''word''
      else if includes_str taskLower ''browser'' \<or> includes_str taskLower ''chrome''
              \<or> includes_str taskLower ''firefox'' then ''chrome''
      else if includes_str taskLower ''code'' \<or> includes_str taskLower ''vscode''
              \<or> includes_str taskLower ''editor'' then ''code''
      else if includes_str taskLower ''terminal'' \<or> includes_str taskLower ''command'' then ''terminal''
      else if includes_str taskLower ''calculator'' \<or> includes_str taskLower ''calc'' then ''calculator''
      else if includes_str taskLower ''notes'' \<or> includes_str taskLower ''notepad'' then ''notepad''
      else (case wordThenRest ''open'' taskLower of
              Some g \<Rightarrow> trim g
            | None \<Rightarrow> ''file''))"

text \<open>
  \<open>runPatternMatchingAI\<close>: \<open>Inr\<close> is the value the promise resolves with, \<open>Inl\<close> the message
  of the error it rejects with. \<open>generateCode\<close>, another method of the class that assembles
  program templates and may throw, is a parameter. The promise settles from the cascade
  after a wait of 500 ms; the 5000 ms timer set before it is cleared and is not modelled.
\<close>

definition runPatternMatchingAI :: "(string \<Rightarrow> string + string) \<Rightarrow> string \<Rightarrow> string + reply" where
  "runPatternMatchingAI generateCode prompt =
    (let taskLower = toLowerCase prompt in
     if taskLower \<in> set [''hi'', ''hello'', ''hey'', ''greetings'', ''good morning'',
                          ''good afternoon'', ''good evening'']
       then Inr (Canned GreetingText)
     else if taskLower \<in> set [''how are you'', ''what's up'', ''how's it going'']
       then Inr (Canned HowAreYouText)
     else if includes_str taskLower ''thank'' \<or> includes_str taskLower ''thanks''
       then Inr (Canned ThanksText)
     else if includes_str taskLower ''open''
       then Inr (Computed (''@action: open '' @ openApp taskLower))
     else if includes_str taskLower ''list''
             \<and> (includes_str taskLower ''files'' \<or> includes_str taskLower ''directories''
                  \<or> includes_str taskLower ''folder'')
       then Inr (Computed ''@action: list files'')
     else if includes_str taskLower ''show''
             \<and> (includes_str taskLower ''files'' \<or> includes_str taskLower ''directory'')
       then Inr (Computed ''@action: list files'')
     else if includes_str taskLower ''search''
       then Inr (Computed (''@action: search '' @
              (case searchTermMatch taskLower of Some g \<Rightarrow> g | None \<Rightarrow> ''tutorial'')))
     else if includes_str taskLower ''find'' \<and> \<not> includes_str taskLower ''file''
       then Inr (Computed (''@action: search '' @
              (case wordThenRest ''find'' taskLower of Some g \<Rightarrow> g | None \<Rightarrow> ''information'')))
     else if includes_str taskLower ''check'' \<and> includes_str taskLower ''disk''
       then Inr (Computed ''@action: check disk usage'')
     else if includes_str taskLower ''show'' \<and> includes_str taskLower ''process''
       then Inr (Computed ''@action: show processes'')
     else if includes_str taskLower ''compile'' \<or> includes_str taskLower ''build''
       then Inr (Computed (''@action: compile '' @
              (if includes_str taskLower ''research'' then ''research_paper.tex''
               else ''document.tex'')))
     else if includes_str taskLower ''run''
       then (case wordThenRest ''run'' taskLower of
               Some g \<Rightarrow> Inr (Computed (''@action: run '' @ trim g))
             | None \<Rightarrow> Inr (Computed ''@action: run script.sh''))
     else if taskLower \<in> set [''help'', ''what can you do'', ''commands'', ''options'']
       then Inr (Canned HelpText)
     else if includes_str taskLower ''create'' \<or> includes_str taskLower ''make''
             \<or> includes_str taskLower ''write''
       then (if includes_str taskLower ''program'' \<or> includes_str taskLower ''code''
                \<or> includes_str taskLower ''script''
             then (case generateCode prompt of
                     Inl m \<Rightarrow> Inl m
                   | Inr codeRequest \<Rightarrow> Inr (Computed codeRequest))
             else
               (let contentType = (if includes_str taskLower ''post'' then ''post''
                                   else if includes_str taskLower ''article'' then ''article''
                                   else ''document'');
                    topic = (case topicMatch prompt of
                               Some g \<Rightarrow> trim g
                             | None \<Rightarrow> ''general topic'')
                in Inr (Computed (''@tool: create_content type='' @ quoted contentType
                                  @ '' topic='' @ quoted topic))))
     else if includes_str taskLower ''close'' \<or> includes_str taskLower ''exit''
             \<or> includes_str taskLower ''quit''
       then Inr (Canned ExitText)
     else Inl (''I'm not sure what you mean by '' @ quoted prompt @ ''. ''
               @ getSuggestions taskLower))"

section \<open>The local model session and the retry supervisor\<close>

text \<open>
  \<open>this.localModel\<close>: \<open>null\<close> before the first load. The objects of the inference library
  (model, context, chat session) are one value of type \<open>'s\<close>; the fallback object has none,
  and a field the object literal leaves out (\<open>fallbackMode\<close> of a real session) is falsy.
\<close>

record 's localModel =
  modelPath :: string
  modelFile :: string
  session :: "'s option"
  ready :: bool
  fallbackMode :: bool

text \<open>
  What loading depends on: the models directory and its listing (\<open>fs.readdir\<close>, which may
  fail), \<open>path.join\<close>, whether the inference library was found at start-up (\<open>LlamaModel\<close>),
  and the construction of its objects for a model file, which may throw.
\<close>

record 's model_env =
  modelsDir :: string
  readdir :: "string \<Rightarrow> string + string list"
  joinPath :: "string \<Rightarrow> string \<Rightarrow> string"
  LlamaModel :: bool
  loadModel :: "string \<Rightarrow> string + 's"

text \<open>What the session code does that takes time: it lists, loads, waits and infers.\<close>

datatype ai_event = ReadDir string | LoadModel string | Sleep nat | RealAttempt | PatternAttempt

definition isReady :: "'s localModel option \<Rightarrow> bool" where
  "isReady lm = (case lm of None \<Rightarrow> False | Some m \<Rightarrow> ready m)"

text \<open>
  \<open>initLocalModel\<close>: the result (\<open>Inl\<close> the message of the error thrown), the session
  afterwards, and what was done. The \<open>catch\<close> around the body logs and throws the error on.
\<close>

definition initLocalModel ::
  "('s, 'x) model_env_scheme \<Rightarrow> 's localModel option
     \<Rightarrow> (string + unit) \<times> 's localModel option \<times> ai_event list" where
  "initLocalModel env lm =
    (if isReady lm then (Inr (), lm, [])
     else
       (case readdir env (modelsDir env) of
          Inl m \<Rightarrow> (Inl m, lm, [ReadDir (modelsDir env)])
        | Inr files \<Rightarrow>
           (case find (\<lambda>f. endsWith f ''.gguf'' \<or> endsWith f ''.bin'') files of
              None \<Rightarrow>
                (Inl ''No model files found. Install a model with: c9ai models install phi-3'',
                 lm, [ReadDir (modelsDir env)])
            | Some file \<Rightarrow>
               (let path = joinPath env (modelsDir env) file in
                if LlamaModel env then
                  (case loadModel env path of
                     Inr s \<Rightarrow>
                       (Inr (),
                        Some \<lparr>modelPath = path, modelFile = file, session = Some s,
                              ready = True, fallbackMode = False\<rparr>,
                        [ReadDir (modelsDir env), LoadModel path])
                   | Inl m \<Rightarrow>
                       (Inr (),
                        Some \<lparr>modelPath = path, modelFile = file, session = None,
                              ready = True, fallbackMode = True\<rparr>,
                        [ReadDir (modelsDir env), LoadModel path]))
                else
                  (Inr (),
                   Some \<lparr>modelPath = path, modelFile = file, session = None,
                         ready = True, fallbackMode = True\<rparr>,
                   [ReadDir (modelsDir env), Sleep 1000])))))"

text \<open>
  The supervisor also needs \<open>this.maxRetries\<close>, the real inference call (\<open>runRealLocalAI\<close>:
  the trimmed response, or the message of its timeout, empty-response or library error;
  it may differ from one attempt to the next, so it is given the retry count), and
  \<open>generateCode\<close> for the pattern resolver.
\<close>

record 's ai_env = "'s model_env" +
  maxRetries :: nat
  runRealLocalAI :: "nat \<Rightarrow> 's \<Rightarrow> string \<Rightarrow> string + string"
  generateCode :: "string \<Rightarrow> string + string"

text \<open>A number in a template literal.\<close>

fun decimal :: "nat \<Rightarrow> string" where
  "decimal n =
     (if n < 10 then [''0123456789'' ! n]
      else decimal (n div 10) @ [''0123456789'' ! (n mod 10)])"

declare decimal.simps [simp del]

text \<open>The first statement of \<open>runLocalAI\<close>: load the model unless one is ready.\<close>

definition ensureReady ::
  "'s ai_env \<Rightarrow> 's localModel option \<Rightarrow> (string + unit) \<times> 's localModel option \<times> ai_event list" where
  "ensureReady env lm = (if \<not> isReady lm then initLocalModel env lm else (Inr (), lm, []))"

text \<open>
  The \<open>try\<close> block of \<open>runLocalAI\<close>: one call of the real model when the library is there
  and the session has its objects, of the pattern resolver otherwise. Reading \<open>session\<close> of
  a \<open>null\<close> model is a TypeError.
\<close>

definition attempt ::
  "'s ai_env \<Rightarrow> string \<Rightarrow> nat \<Rightarrow> 's localModel option \<Rightarrow> (string + reply) \<times> ai_event list" where
  "attempt env prompt retryCount lm =
    (if LlamaModel env then
       (case lm of
          None \<Rightarrow> (Inl ''Cannot read properties of null (reading 'session')'', [])
        | Some m \<Rightarrow>
           (case session m of
              Some s \<Rightarrow>
                (case runRealLocalAI env retryCount s prompt of
                   Inl msg \<Rightarrow> (Inl msg, [RealAttempt])
                 | Inr response \<Rightarrow> (Inr (Computed response), [RealAttempt]))
            | None \<Rightarrow> (runPatternMatchingAI (generateCode env) prompt, [PatternAttempt])))
     else (runPatternMatchingAI (generateCode env) prompt, [PatternAttempt]))"

text \<open>
  \<open>runLocalAI\<close>: on an error of the attempt, wait 1000 ms and call itself with the retry
  count plus one while the count is below \<open>maxRetries\<close>; otherwise throw.
\<close>

function runLocalAI ::
  "'s ai_env \<Rightarrow> string \<Rightarrow> nat \<Rightarrow> 's localModel option
     \<Rightarrow> (string + reply) \<times> 's localModel option \<times> ai_event list" where
  "runLocalAI env prompt retryCount lm =
    (case ensureReady env lm of
       (Inl m, lm1, ev0) \<Rightarrow> (Inl m, lm1, ev0)
     | (Inr u, lm1, ev0) \<Rightarrow>
        (case attempt env prompt retryCount lm1 of
           (Inr response, ev1) \<Rightarrow> (Inr response, lm1, ev0 @ ev1)
         | (Inl msg, ev1) \<Rightarrow>
            (if retryCount < maxRetries env then
               (case runLocalAI env prompt (retryCount + 1) lm1 of
                  (r, lm2, ev2) \<Rightarrow> (r, lm2, ev0 @ ev1 @ [Sleep 1000] @ ev2))
             else
               (Inl (''Local AI failed after '' @ decimal (maxRetries env) @ '' attempts: '' @ msg),
                lm1, ev0 @ ev1))))"
  by pat_completeness auto
termination
  by (relation "measure (\<lambda>(env, prompt, retryCount, lm). maxRetries env - retryCount)") auto

declare runLocalAI.simps [simp del]

text \<open>The number of calls of the underlying inference in a trace.\<close>

definition attempts :: "ai_event list \<Rightarrow> nat" where
  "attempts evs = length (filter (\<lambda>e. e = RealAttempt \<or> e = PatternAttempt) evs)"

text \<open>
  A machine for concrete runs: one model file, the inference library present and loading,
  three retries as the constructor sets, and a real model that times out on every call.
\<close>

definition machine :: "unit ai_env" where
  "machine =
     \<lparr>modelsDir = ''/home/u/.c9ai/models'',
      readdir = (\<lambda>d. Inr [''README.md'', ''phi-3.gguf'']),
      joinPath = (\<lambda>d f. d @ ''/'' @ f),
      LlamaModel = True,
      loadModel = (\<lambda>p. Inr ()),
      maxRetries = 3,
      runRealLocalAI = (\<lambda>k s p. Inl ''Local AI timeout after 30 seconds''),
      generateCode = (\<lambda>p. Inr ''@create: program.py'')\<rparr>"

text \<open>The session of that machine after its first load.\<close>

definition loaded :: "unit localModel option" where
  "loaded = fst (snd (initLocalModel machine None))"

text \<open>The same machine with a models directory that cannot be read.\<close>

definition unreadable :: "unit ai_env" where
  "unreadable = machine\<lparr>readdir := (\<lambda>d. Inl ''ENOENT'')\<rparr>"

section \<open>Application mappings and what is learned\<close>

subsection \<open>Plain objects\<close>

text \<open>
  The platform argument of every call in the code is \<open>os.platform()\<close>, one of the names
  below; none of them names a built-in property of an object, a function or a string.
\<close>

datatype platform = Aix | Android | Darwin | FreeBSD | Linux | OpenBSD | SunOS | Win32

fun platformName :: "platform \<Rightarrow> string" where
  "platformName Aix = ''aix''"
| "platformName Android = ''android''"
| "platformName Darwin = ''darwin''"
| "platformName FreeBSD = ''freebsd''"
| "platformName Linux = ''linux''"
| "platformName OpenBSD = ''openbsd''"
| "platformName SunOS = ''sunos''"
| "platformName Win32 = ''win32''"

definition platformOf :: "string \<Rightarrow> platform option" where
  "platformOf name =
     find (\<lambda>p. platformName p = name) [Aix, Android, Darwin, FreeBSD, Linux, OpenBSD, SunOS, Win32]"

text \<open>
  What the tables hold under a platform key: a string (an application name), or the record
  \<open>{command, error, timestamp}\<close> of a failed attempt. A record is an object, so it can
  itself be given properties under platform keys; they are kept with it, newest first.
\<close>

datatype entry = Text string | Record string string string "(platform \<times> entry) list"

text \<open>A value as a condition: only the empty string is falsy.\<close>

fun truthy :: "entry \<Rightarrow> bool" where
  "truthy (Text s) = (s \<noteq> [])"
| "truthy (Record c e t extras) = True"

text \<open>A value in a template literal.\<close>

fun render :: "entry \<Rightarrow> string" where
  "render (Text s) = s"
| "render (Record c e t extras) = ''[object Object]''"

text \<open>
  The tables are plain objects: \<open>table[alias]\<close> finds the table's own property and otherwise
  goes up the prototype chain to \<open>Object.prototype\<close>. An alias is in lower case, and the
  lower-case names found there are \<open>constructor\<close> (the function \<open>Object\<close>), \<open>__proto__\<close>
  (\<open>Object.prototype\<close> itself) and whatever the program has written there. The program
  writes only under platform keys, so the heap is what it has written on \<open>Object\<close> and on
  \<open>Object.prototype\<close>; both are empty when the process starts.
\<close>

record heap =
  onObject :: "platform \<rightharpoonup> entry"
  onPrototype :: "platform \<rightharpoonup> entry"

text \<open>
  The own properties of a table: an alias, then an object with its own platform keys (the
  shape of the mappings file).
\<close>

type_synonym table = "string \<rightharpoonup> (platform \<rightharpoonup> entry)"

text \<open>
  What \<open>table[alias]\<close> evaluates to: an object of the table's own, \<open>Object\<close>,
  \<open>Object.prototype\<close>, or a value inherited from \<open>Object.prototype\<close> under a key that is
  a platform name.
\<close>

datatype holder = Own "platform \<rightharpoonup> entry" | ObjectFn | ObjectProto | Inherited platform entry

definition get1 :: "heap \<Rightarrow> table \<Rightarrow> string \<Rightarrow> holder option" where
  "get1 h table alias =
     (case table alias of
        Some obj \<Rightarrow> Some (Own obj)
      | None \<Rightarrow>
         (if alias = ''constructor'' then Some ObjectFn
          else if alias = ''__proto__'' then Some ObjectProto
          else (case platformOf alias of
                  None \<Rightarrow> None
                | Some q \<Rightarrow> (case onPrototype h q of
                               None \<Rightarrow> None
                             | Some v \<Rightarrow> Some (Inherited q v)))))"

fun truthyHolder :: "holder \<Rightarrow> bool" where
  "truthyHolder (Inherited q v) = truthy v"
| "truthyHolder _ = True"

text \<open>
  \<open>x[platform]\<close> for such an \<open>x\<close>: its own property, otherwise the one on
  \<open>Object.prototype\<close>, which every object, function and string inherits from.
\<close>

definition get2 :: "heap \<Rightarrow> holder \<Rightarrow> platform \<Rightarrow> entry option" where
  "get2 h x p =
     (case (case x of
              Own obj \<Rightarrow> obj p
            | ObjectFn \<Rightarrow> onObject h p
            | ObjectProto \<Rightarrow> None
            | Inherited q (Text s) \<Rightarrow> None
            | Inherited q (Record c e t extras) \<Rightarrow> map_of extras p) of
        Some v \<Rightarrow> Some v
      | None \<Rightarrow> onPrototype h p)"

text \<open>
  \<open>table[alias] && table[alias][platform]\<close> as a condition, with the value when it is
  truthy.
\<close>

definition lookup2 :: "heap \<Rightarrow> table \<Rightarrow> string \<Rightarrow> platform \<Rightarrow> entry option" where
  "lookup2 h table alias platform =
     (case get1 h table alias of
        None \<Rightarrow> None
      | Some x \<Rightarrow>
         (if truthyHolder x then
            (case get2 h x platform of
               None \<Rightarrow> None
             | Some v \<Rightarrow> if truthy v then Some v else None)
          else None))"

text \<open>
  \<open>if (!table[alias]) table[alias] = {}; table[alias][platform] = v\<close>: the heap and the
  table's own properties afterwards. The write goes to whatever \<open>table[alias]\<close> is: for the
  alias \<open>constructor\<close> that is the global \<open>Object\<close>, for \<open>__proto__\<close> it is
  \<open>Object.prototype\<close>, for an inherited record it is that record. A class body is strict
  code, where creating a property on an inherited non-empty string is a TypeError (\<open>Inl\<close>).
\<close>

definition store2 :: "heap \<Rightarrow> table \<Rightarrow> string \<Rightarrow> platform \<Rightarrow> entry \<Rightarrow> unit + heap \<times> table" where
  "store2 h table alias platform v =
     (case get1 h table alias of
        None \<Rightarrow> Inr (h, table(alias \<mapsto> [platform \<mapsto> v]))
      | Some (Own obj) \<Rightarrow> Inr (h, table(alias \<mapsto> obj(platform \<mapsto> v)))
      | Some ObjectFn \<Rightarrow> Inr (h\<lparr>onObject := (onObject h)(platform \<mapsto> v)\<rparr>, table)
      | Some ObjectProto \<Rightarrow> Inr (h\<lparr>onPrototype := (onPrototype h)(platform \<mapsto> v)\<rparr>, table)
      | Some (Inherited q (Text s)) \<Rightarrow>
          (if s = [] then Inr (h, table(alias \<mapsto> [platform \<mapsto> v])) else Inl ())
      | Some (Inherited q (Record c e t extras)) \<Rightarrow>
          Inr (h\<lparr>onPrototype := (onPrototype h)(q \<mapsto> Record c e t ((platform, v) # extras))\<rparr>,
               table))"

subsection \<open>Lookup and learning\<close>

text \<open>
  \<open>this.appMappings\<close> (the \<open>applications\<close> table of the mappings file) and
  \<open>this.learningData\<close>, whose two tables may be missing: the constructor starts with an
  empty object.
\<close>

record app_state =
  objects :: heap
  appMappings :: table
  successful_mappings :: "table option"
  failed_attempts :: "table option"

definition learned :: "app_state \<Rightarrow> string \<Rightarrow> platform \<Rightarrow> entry option" where
  "learned st alias platform =
     (case successful_mappings st of
        None \<Rightarrow> None
      | Some table \<Rightarrow> lookup2 (objects st) table alias platform)"

text \<open>
  The command that starts a mapped or learned application: a template literal on macOS and
  Windows, the value itself elsewhere.
\<close>

definition launch :: "platform \<Rightarrow> entry \<Rightarrow> entry" where
  "launch platform app =
     (if platform = Darwin then Text (''open -a '' @ quoted (render app))
      else if platform = Win32 then Text (''start '' @ quoted [] @ '' '' @ quoted (render app))
      else app)"

definition getApplicationCommand :: "app_state \<Rightarrow> string \<Rightarrow> platform \<Rightarrow> entry" where
  "getApplicationCommand st appName platform =
    (let appLower = toLowerCase appName in
     case lookup2 (objects st) (appMappings st) appLower platform of
       Some platformApp \<Rightarrow> launch platform platformApp
     | None \<Rightarrow>
        (case learned st appLower platform of
           Some learnedApp \<Rightarrow> launch platform learnedApp
         | None \<Rightarrow>
            (if platform = Darwin then Text (''open -a '' @ quoted appName)
             else if platform = Win32 then Text (''start '' @ quoted [] @ '' '' @ quoted appName)
             else Text (''xdg-open '' @ appName))))"

text \<open>The own properties of the object literal \<open>alternatives\<close>.\<close>

definition alternatives :: "string \<Rightarrow> (platform \<rightharpoonup> string list) option" where
  "alternatives appName =
     (if appName = ''calculator'' then
        Some [Darwin \<mapsto> [''Calculator'', ''Spotlight Calculator''],
              Win32 \<mapsto> [''calc'', ''calculator.exe''],
              Linux \<mapsto> [''gnome-calculator'', ''kcalc'', ''qalculate-gtk'']]
      else if appName = ''notepad'' then
        Some [Darwin \<mapsto> [''TextEdit'', ''Notes''],
              Win32 \<mapsto> [''notepad'', ''notepad.exe''],
              Linux \<mapsto> [''gedit'', ''nano'', ''vim'']]
      else if appName = ''terminal'' then
        Some [Darwin \<mapsto> [''Terminal'', ''iTerm''],
              Win32 \<mapsto> [''cmd'', ''powershell''],
              Linux \<mapsto> [''gnome-terminal'', ''konsole'', ''xterm'']]
      else None)"

text \<open>
  \<open>suggestions.push(...v)\<close> for an inherited \<open>v\<close>: a string spreads into its characters, a
  record is not iterable (a TypeError, \<open>Inl\<close>); a missing or falsy \<open>v\<close> is not pushed.
\<close>

definition spread :: "entry option \<Rightarrow> unit + string list" where
  "spread v =
     (case v of
        None \<Rightarrow> Inr []
      | Some (Text s) \<Rightarrow> Inr (map (\<lambda>c. [c]) s)
      | Some (Record c e t extras) \<Rightarrow> Inl ())"

text \<open>
  \<open>suggestApplicationAlternatives\<close>. \<open>alternatives\<close> is a plain object as well:
  \<open>alternatives[appName]\<close> and \<open>alternatives[appName][platform]\<close> find inherited values
  where it has no own ones.
\<close>

definition suggestApplicationAlternatives :: "heap \<Rightarrow> string \<Rightarrow> platform \<Rightarrow> unit + string list" where
  "suggestApplicationAlternatives h appName platform =
     (case alternatives appName of
        Some byPlatform \<Rightarrow>
          (case byPlatform platform of
             Some names \<Rightarrow> Inr names
           | None \<Rightarrow> spread (onPrototype h platform))
      | None \<Rightarrow>
          (case get1 h Map.empty appName of
             None \<Rightarrow> Inr []
           | Some x \<Rightarrow> if truthyHolder x then spread (get2 h x platform) else Inr []))"

text \<open>
  What learning reads from its surroundings: \<open>os.platform()\<close>, \<open>runCommand\<close> (\<open>None\<close> when
  the command exits with 0, its error message otherwise), and the time.
\<close>

record learn_env =
  osPlatform :: platform
  run :: "string \<Rightarrow> string option"
  now :: string

datatype learn_event = Ran string | Saved

text \<open>
  The \<open>for\<close> loop of \<open>logFailureAndLearn\<close> over the suggestions: the state afterwards, the
  alternative learned if one was, and what was done. Each turn has a \<open>try\<close> of its own: a
  command that fails or is no string (\<open>spawn\<close> throws, nothing runs), the TypeError of
  writing into a \<open>successful_mappings\<close> that is not there, and the TypeError of the write
  itself all go on to the next suggestion. After the loop the mappings are saved.
\<close>

fun tryAlternatives ::
  "learn_env \<Rightarrow> app_state \<Rightarrow> string \<Rightarrow> string list \<Rightarrow> app_state \<times> string option \<times> learn_event list" where
  "tryAlternatives env st appLower [] = (st, None, [Saved])"
| "tryAlternatives env st appLower (suggestion # rest) =
    (case getApplicationCommand st suggestion (osPlatform env) of
       Record c e t extras \<Rightarrow> tryAlternatives env st appLower rest
     | Text altCommand \<Rightarrow>
        (case run env altCommand of
           Some msg \<Rightarrow>
             (case tryAlternatives env st appLower rest of
                (st', l, evs) \<Rightarrow> (st', l, Ran altCommand # evs))
         | None \<Rightarrow>
             (case successful_mappings st of
                None \<Rightarrow>
                  (case tryAlternatives env st appLower rest of
                     (st', l, evs) \<Rightarrow> (st', l, Ran altCommand # evs))
              | Some table \<Rightarrow>
                  (case store2 (objects st) table appLower (osPlatform env) (Text suggestion) of
                     Inl u \<Rightarrow>
                       (case tryAlternatives env st appLower rest of
                          (st', l, evs) \<Rightarrow> (st', l, Ran altCommand # evs))
                   | Inr (h, table') \<Rightarrow>
                       (st\<lparr>objects := h, successful_mappings := Some table'\<rparr>,
                        Some suggestion, [Ran altCommand, Saved])))))"

text \<open>
  \<open>logFailureAndLearn\<close>; \<open>target\<close> is \<open>parameters.target\<close>. The whole body is in a \<open>try\<close>
  whose \<open>catch\<close> is empty: a TypeError of the write of the failed attempt or of the spread
  of the suggestions ends the call with what was written before it. \<open>saveAppMappings\<close>
  catches its own errors.
\<close>

definition logFailureAndLearn ::
  "learn_env \<Rightarrow> app_state \<Rightarrow> string \<Rightarrow> string option \<Rightarrow> string \<Rightarrow> string
     \<Rightarrow> app_state \<times> string option \<times> learn_event list" where
  "logFailureAndLearn env st toolName target command errorMessage =
    (let failed = (case failed_attempts st of None \<Rightarrow> Map.empty | Some t \<Rightarrow> t);
         st0 = st\<lparr>failed_attempts := Some failed\<rparr>
     in case target of
          None \<Rightarrow> (st0, None, [])
        | Some t \<Rightarrow>
           (if toolName = ''open_application'' \<and> t \<noteq> [] then
              (let appLower = toLowerCase t; platform = osPlatform env
               in case store2 (objects st0) failed appLower platform
                         (Record command errorMessage (now env) []) of
                    Inl u \<Rightarrow> (st0, None, [])
                  | Inr (h, failed') \<Rightarrow>
                     (let st1 = st0\<lparr>objects := h, failed_attempts := Some failed'\<rparr>
                      in case suggestApplicationAlternatives h appLower platform of
                           Inl u \<Rightarrow> (st1, None, [])
                         | Inr suggestions \<Rightarrow> tryAlternatives env st1 appLower suggestions))
            else (st0, None, [])))"

text \<open>
  For concrete runs: a Linux desktop on which only \<open>xdg-open gnome-calculator\<close> starts; a
  fresh process with nothing mapped; and one whose table maps the alias \<open>calculator\<close> on
  Linux.
\<close>

definition desktop :: learn_env where
  "desktop =
     \<lparr>osPlatform = Linux,
      run = (\<lambda>c. if c = ''xdg-open gnome-calculator'' then None else Some ''command not found''),
      now = ''2025-01-01T00:00:00.000Z''\<rparr>"

definition unmapped :: app_state where
  "unmapped = \<lparr>objects = \<lparr>onObject = Map.empty, onPrototype = Map.empty\<rparr>,
               appMappings = Map.empty, successful_mappings = Some Map.empty,
               failed_attempts = Some Map.empty\<rparr>"

definition mapped :: app_state where
  "mapped = \<lparr>objects = \<lparr>onObject = Map.empty, onPrototype = Map.empty\<rparr>,
             appMappings = [''calculator'' \<mapsto> [Linux \<mapsto> Text ''galculator'']],
             successful_mappings = Some Map.empty, failed_attempts = Some Map.empty\<rparr>"
section \<open>Properties of the classifier\<close>

lemma search_mono: "(\<And>t. p t \<Longrightarrow> q t) \<Longrightarrow> search p s \<Longrightarrow> search q s"
  by (induction s) auto

lemma includes_search: "includes_str s w \<Longrightarrow> search (lit w accept) s"
  by (induction s) (auto simp: lit_def accept_def)

lemma includes_search_alts: "includes_str s w \<Longrightarrow> w \<in> set ws \<Longrightarrow> search (alts ws accept) s"
proof -
  assume a: "includes_str s w" and b: "w \<in> set ws"
  have "\<And>t. lit w accept t \<Longrightarrow> alts ws accept t"
    using b by (auto simp: alts_def list_ex_iff)
  then show ?thesis using search_mono[OF _ includes_search[OF a]] by blast
qed

lemma dotStar_here: "k s \<Longrightarrow> dotStar k s"
  by (cases s) auto

lemma two_words_dotStar:
  assumes "prefix (a @ '' '' @ b) t"
  shows "lit a (dotStar (lit b accept)) t"
proof -
  from assms obtain zs where t: "t = a @ '' '' @ b @ zs"
    by (auto simp: prefix_def)
  have "lit b accept (b @ zs)"
    by (simp add: lit_def accept_def)
  then have "dotStar (lit b accept) (b @ zs)"
    by (rule dotStar_here)
  then have "dotStar (lit b accept) ('' '' @ b @ zs)"
    by (simp add: isLineTerminator_def)
  then show ?thesis
    by (simp add: lit_def t)
qed

lemma includes_two_words:
  assumes "includes_str s (a @ '' '' @ b)"
  shows "search (lit a (dotStar (lit b accept))) s"
proof -
  have "search (lit (a @ '' '' @ b) accept) s"
    using assms by (rule includes_search)
  moreover have "lit a (dotStar (lit b accept)) t" if "lit (a @ '' '' @ b) accept t" for t
  proof -
    from that have "prefix (a @ '' '' @ b) t"
      by (simp add: lit_def)
    then show ?thesis
      by (rule two_words_dotStar)
  qed
  ultimately show ?thesis
    using search_mono by blast
qed

lemma search_or1: "search p s \<Longrightarrow> search (\<lambda>t. p t \<or> q t) s"
  by (induction s) auto

lemma commandIntent_spec_matches:
  assumes "commandIntent_spec lower"
  shows "some_test commandPatterns lower"
proof -
  consider (start) "list_ex (startsWith lower)
        [''open'', ''launch'', ''list'', ''show'', ''check'', ''search'', ''create'', ''delete'',
         ''compile'', ''execute'', ''install'']"
    | (disk) "includes_str lower ''disk usage''"
    | (git) "includes_str lower ''git status''"
    | (noun) "list_ex (includes_str lower) [''process'', ''file'', ''directory'']"
    using assms by (auto simp: commandIntent_spec_def)
  then show ?thesis
  proof cases
    case start
    then show ?thesis
      by (auto simp: some_test_def commandPatterns_def alts_def lit_def accept_def startsWith_def)
  next
    case disk
    then have "search (lit ''disk'' (dotStar (lit ''usage'' accept))) lower"
      using includes_two_words[of lower "''disk''" "''usage''"] by simp
    then have "search (\<lambda>s. lit ''disk'' (dotStar (lit ''usage'' accept)) s \<or> lit ''space'' accept s) lower"
      by (rule search_or1)
    then show ?thesis
      by (simp add: some_test_def commandPatterns_def)
  next
    case git
    then have "search (lit ''git'' (dotStar (lit ''status'' accept))) lower"
      using includes_two_words[of lower "''git''" "''status''"] by simp
    then show ?thesis
      by (simp add: some_test_def commandPatterns_def)
  next
    case noun
    then obtain w where w: "w \<in> set [''process'', ''file'', ''directory'']" "includes_str lower w"
      unfolding list_ex_iff by blast
    then have "search (alts [''process'', ''file'', ''directory''] accept) lower"
      using includes_search_alts by blast
    then show ?thesis
      by (simp add: some_test_def commandPatterns_def)
  qed
qed

text \<open>
  Claim C1. Whenever the lower-cased, trimmed input matches one of the command patterns of the
  code (or one of the command-intent forms the specification lists, which the code's patterns
  cover), \<open>isConversationalInput\<close> returns false, that is the input is actionable, whatever
  conversational markers it also contains: the command patterns are tested first.
\<close>

theorem command_pattern_wins:
  assumes "some_test commandPatterns (trim (toLowerCase input))
           \<or> commandIntent_spec (trim (toLowerCase input))"
  shows "isActionable input \<and> isConversationalInput input = False"
proof -
  have "some_test commandPatterns (trim (toLowerCase input))"
    using assms commandIntent_spec_matches by blast
  then show ?thesis
    by (simp add: isActionable_def isConversationalInput_def)
qed

text \<open>
  The specification's example: the input mentions disk usage, and also has the opinion word
  \<open>think\<close>, the conversational pattern \<open>do you.*\?$\<close> and a final question mark.
\<close>

theorem command_pattern_wins_witness:
  "commandIntent_spec (trim (toLowerCase ''do you think check disk usage is useful?''))
   \<and> some_test conversationalPatterns (trim (toLowerCase ''do you think check disk usage is useful?''))
   \<and> hasConversationalWords (trim (toLowerCase ''do you think check disk usage is useful?''))
   \<and> endsWith ''do you think check disk usage is useful?'' ''?''
   \<and> isActionable ''do you think check disk usage is useful?''
   \<and> isConversationalInput ''do you think check disk usage is useful?'' = False"
proof -
  have h: "commandIntent_spec (trim (toLowerCase ''do you think check disk usage is useful?''))"
    by code_simp
  have c: "some_test conversationalPatterns
             (trim (toLowerCase ''do you think check disk usage is useful?''))"
    by code_simp
  have m: "hasConversationalWords (trim (toLowerCase ''do you think check disk usage is useful?''))"
    by code_simp
  have e: "endsWith ''do you think check disk usage is useful?'' ''?''"
    by code_simp
  from h have "some_test commandPatterns (trim (toLowerCase ''do you think check disk usage is useful?''))
           \<or> commandIntent_spec (trim (toLowerCase ''do you think check disk usage is useful?''))"
    by simp
  from command_pattern_wins[OF this] h c m e show ?thesis
    by simp
qed

text \<open>
  Claim C5 as stated fails: the default rule looks for a question mark anywhere in the input
  (\<open>input.includes('?')\<close>), not at its end. The input below matches no pattern and no
  heuristic, does not end in a question mark and has 20 characters, and is conversational.
\<close>

theorem default_rule_counterexample:
  "\<not> some_test commandPatterns (trim (toLowerCase ''is it ok? 1234567890''))
   \<and> \<not> some_test conversationalPatterns (trim (toLowerCase ''is it ok? 1234567890''))
   \<and> \<not> hasQuestionWords (trim (toLowerCase ''is it ok? 1234567890''))
   \<and> \<not> hasConversationalWords (trim (toLowerCase ''is it ok? 1234567890''))
   \<and> isConversationalInput ''is it ok? 1234567890''
   \<and> \<not> (endsWith ''is it ok? 1234567890'' ''?'' \<or> length ''is it ok? 1234567890'' < 15)"
  by code_simp

text \<open>
  Claim C5, amended. For every input that matches no command pattern, no conversational
  pattern and neither heuristic, the classifier returns conversational exactly when the input
  contains a question mark anywhere or its lower-cased, trimmed form is shorter than 15
  characters, and actionable otherwise.
\<close>

theorem default_rule:
  assumes "\<not> some_test commandPatterns (trim (toLowerCase input))"
    and "\<not> some_test conversationalPatterns (trim (toLowerCase input))"
    and "\<not> (hasQuestionWords (trim (toLowerCase input)) \<and> includes_str input ''?''
            \<and> \<not> hasCommandKeywords (trim (toLowerCase input)))"
    and "\<not> hasConversationalWords (trim (toLowerCase input))"
  shows "isConversationalInput input
           = (includes_str input ''?'' \<or> length (trim (toLowerCase input)) < 15)"
  using assms by (simp add: isConversationalInput_def Let_def)

theorem default_rule_witness:
  "\<not> some_test commandPatterns (trim (toLowerCase ''remind me at noon tomorrow''))
   \<and> \<not> some_test conversationalPatterns (trim (toLowerCase ''remind me at noon tomorrow''))
   \<and> \<not> (hasQuestionWords (trim (toLowerCase ''remind me at noon tomorrow''))
          \<and> includes_str ''remind me at noon tomorrow'' ''?''
          \<and> \<not> hasCommandKeywords (trim (toLowerCase ''remind me at noon tomorrow'')))
   \<and> \<not> hasConversationalWords (trim (toLowerCase ''remind me at noon tomorrow''))
   \<and> \<not> (includes_str ''remind me at noon tomorrow'' ''?''
          \<or> length (trim (toLowerCase ''remind me at noon tomorrow'')) < 15)
   \<and> isConversationalInput ''remind me at noon tomorrow'' = False"
proof -
  have a: "\<not> some_test commandPatterns (trim (toLowerCase ''remind me at noon tomorrow''))"
    by code_simp
  have b: "\<not> some_test conversationalPatterns (trim (toLowerCase ''remind me at noon tomorrow''))"
    by code_simp
  have c: "\<not> (hasQuestionWords (trim (toLowerCase ''remind me at noon tomorrow''))
          \<and> includes_str ''remind me at noon tomorrow'' ''?''
          \<and> \<not> hasCommandKeywords (trim (toLowerCase ''remind me at noon tomorrow'')))"
    by code_simp
  have d: "\<not> hasConversationalWords (trim (toLowerCase ''remind me at noon tomorrow''))"
    by code_simp
  have e: "\<not> (includes_str ''remind me at noon tomorrow'' ''?''
          \<or> length (trim (toLowerCase ''remind me at noon tomorrow'')) < 15)"
    by code_simp
  from default_rule[OF a b c d] a b c d e show ?thesis
    by simp
qed

section \<open>Properties of the router\<close>

lemma split_sp_not_Nil: "split_sp s \<noteq> []"
  by (induction s) (auto split: list.splits)

lemma dropWhile_snoc_keep: "\<not> P c \<Longrightarrow> \<exists>ys. dropWhile P (xs @ [c]) = ys @ [c]"
  by (induction xs) auto

lemma trim_Cons_nonspace:
  assumes "\<not> isWhiteSpace c"
  shows "\<exists>ys. trim (c # cs) = c # ys"
proof -
  obtain ys where "dropWhile isWhiteSpace (rev cs @ [c]) = ys @ [c]"
    using dropWhile_snoc_keep[of isWhiteSpace c "rev cs"] assms by blast
  then show ?thesis
    using assms by (simp add: trim_def)
qed

lemma handleCommand_returns: "fst (handleCommand perform home input w) = Inr ()"
  by (simp add: handleCommand_def split: prod.splits sum.splits)

lemma at_not_space: "\<not> isWhiteSpace CHR ''@''"
  by (simp add: isWhiteSpace_def)

lemma hd_split_sp_Cons: "c \<noteq> CHR '' '' \<Longrightarrow> \<exists>w. hd (split_sp (c # cs)) = c # w"
  using split_sp_not_Nil[of cs] by (auto split: list.splits)

lemma namedCommand_at: "namedCommand (CHR ''@'' # w) args = None"
  by (simp add: namedCommand_def toLowerCase_def toLowerChar_def isUpper_def)

lemma call_handle:
  "tryBody perform home input w = call perform a w \<Longrightarrow>
   handleCommand perform home input w =
     (case perform a w of
        (None, w') \<Rightarrow> (Inr (), [Did a], w')
      | (Some e, w') \<Rightarrow> (Inr (), [Did a, Out (ErrorExecutingCommand (message e))], w'))"
  by (simp add: handleCommand_def call_def split: prod.splits option.splits)

lemma call_calls: "calls (fst (snd (call perform a w))) = [a]"
  by (simp add: call_def calls_def split: prod.splits option.splits)

lemma handleCommand_calls: "calls (fst (snd (handleCommand perform home input w)))
    = calls (fst (snd (tryBody perform home input w)))"
  by (simp add: handleCommand_def calls_def split: prod.splits sum.splits)

text \<open>
  Claim C2 as stated fails: the remainder is not passed verbatim. After \<open>!\<close> the remainder
  \<open>" ls"\<close> reaches the shell as \<open>"ls"\<close>, and the empty remainder reaches nothing.
\<close>

theorem shell_sigil_counterexample:
  "calls (fst (snd (handleCommand succeed ''/home/u'' ''! ls'' ()))) = [RunShellCommand ''ls'']
   \<and> ''ls'' \<noteq> drop 1 ''! ls''
   \<and> calls (fst (snd (handleCommand succeed ''/home/u'' ''!'' ()))) = []"
  by code_simp

text \<open>
  Claim C2, amended. For an input that begins with \<open>!\<close>, the remainder is trimmed first. An
  empty trimmed remainder does nothing. One that starts with \<open>cd\<close> changes the working
  directory (to the trimmed rest, or to the home directory when that is empty or \<open>~\<close>),
  spawns nothing, and reports a failure without throwing. Any other is passed, unchanged, to
  the shell primitive, once.
\<close>

theorem shell_sigil:
  assumes "startsWith input ''!''"
    and "shellCommand = trim (drop 1 input)"
    and "targetDir = (if trim (drop 2 shellCommand) = [] \<or> trim (drop 2 shellCommand) = ''~''
                      then home else trim (drop 2 shellCommand))"
  shows "fst (handleCommand perform home input w) = Inr ()
       \<and> (shellCommand = [] \<longrightarrow> handleCommand perform home input w = (Inr (), [], w))
       \<and> (shellCommand \<noteq> [] \<and> \<not> startsWith shellCommand ''cd'' \<longrightarrow>
            calls (fst (snd (handleCommand perform home input w))) = [RunShellCommand shellCommand])
       \<and> (startsWith shellCommand ''cd'' \<longrightarrow>
            calls (fst (snd (handleCommand perform home input w))) = [Chdir targetDir]
            \<and> handleCommand perform home input w =
                (case perform (Chdir targetDir) w of
                   (None, w') \<Rightarrow> (Inr (), [Did (Chdir targetDir), Out ChangedDirectory], w')
                 | (Some e, w') \<Rightarrow>
                     (Inr (), [Did (Chdir targetDir), Out (ErrorChangingDirectory (message e))], w')))"
proof -
  have returns: "fst (handleCommand perform home input w) = Inr ()"
    by (rule handleCommand_returns)
  have empty: "handleCommand perform home input w = (Inr (), [], w)" if "shellCommand = []"
    using that assms(1,2) by (simp add: handleCommand_def tryBody_def)
  have shell: "calls (fst (snd (handleCommand perform home input w))) = [RunShellCommand shellCommand]"
    if "shellCommand \<noteq> []" "\<not> startsWith shellCommand ''cd''"
  proof -
    have "tryBody perform home input w = call perform (RunShellCommand shellCommand) w"
      using that assms(1,2) by (simp add: tryBody_def)
    then show ?thesis
      by (simp add: handleCommand_calls call_calls)
  qed
  have cd: "handleCommand perform home input w =
                (case perform (Chdir targetDir) w of
                   (None, w') \<Rightarrow> (Inr (), [Did (Chdir targetDir), Out ChangedDirectory], w')
                 | (Some e, w') \<Rightarrow>
                     (Inr (), [Did (Chdir targetDir), Out (ErrorChangingDirectory (message e))], w'))"
    if "startsWith shellCommand ''cd''"
  proof -
    from that have "shellCommand \<noteq> []"
      by (auto simp: startsWith_def)
    then show ?thesis
      using that assms
      by (simp add: handleCommand_def tryBody_def Let_def split: prod.splits option.splits)
  qed
  have cd_calls: "calls (fst (snd (handleCommand perform home input w))) = [Chdir targetDir]"
    if "startsWith shellCommand ''cd''"
    using cd[OF that] by (simp add: calls_def split: prod.splits option.splits)
  show ?thesis
    using returns empty shell cd cd_calls by blast
qed

theorem shell_sigil_witness:
  "handleCommand (fail_with ''ENOENT'') ''/home/u'' ''!cd /nonexistent'' ()
     = (Inr (), [Did (Chdir ''/nonexistent''), Out (ErrorChangingDirectory ''ENOENT'')], ())
   \<and> calls (fst (snd (handleCommand succeed ''/home/u'' ''!ls -la'' ()))) = [RunShellCommand ''ls -la'']"
proof -
  have a: "startsWith ''!cd /nonexistent'' ''!''"
    by code_simp
  have b: "''cd /nonexistent'' = trim (drop 1 ''!cd /nonexistent'')"
    by code_simp
  have c: "''/nonexistent'' =
        (if trim (drop 2 ''cd /nonexistent'') = [] \<or> trim (drop 2 ''cd /nonexistent'') = ''~''
         then ''/home/u'' else trim (drop 2 ''cd /nonexistent''))"
    by code_simp
  have d: "startsWith ''cd /nonexistent'' ''cd''"
    by code_simp
  have a': "startsWith ''!ls -la'' ''!''"
    by code_simp
  have b': "''ls -la'' = trim (drop 1 ''!ls -la'')"
    by code_simp
  have c': "''-la'' =
        (if trim (drop 2 ''ls -la'') = [] \<or> trim (drop 2 ''ls -la'') = ''~''
         then ''/home/u'' else trim (drop 2 ''ls -la''))"
    by code_simp
  have d': "''ls -la'' \<noteq> [] \<and> \<not> startsWith ''ls -la'' ''cd''"
    by code_simp
  from shell_sigil[OF a b c, of "fail_with ''ENOENT''" "()"] d
       shell_sigil[OF a' b' c', of succeed "()"] d'
  show ?thesis
    by (simp add: fail_with_def)
qed

text \<open>
  Claim C10. An input that begins with \<open>@\<close> and whose first word after it is none of the
  eight modes raises no error of its own: no case of the sigil switch matches, its first token
  (which begins with \<open>@\<close>) is no named command, and the whole trimmed input, \<open>@\<close> word
  included, goes to the conversation handler or to natural-language processing as the
  classifier decides. The only error reported is one the chosen handler throws.
\<close>

theorem unknown_sigil_falls_through:
  assumes "startsWith input ''@''"
    and "hd (split_sp (drop 1 input)) \<notin>
           {''claude'', ''gemini'', ''local'', ''conv'', ''chat'', ''cmd'', ''command'', ''tool''}"
    and "a = (if isConversationalInput (trim input) then HandleConversation (trim input)
              else ProcessNaturalLanguageCommand (trim input))"
  shows "namedCommand (hd (split_sp input)) (tl (split_sp input)) = None
       \<and> startsWith (trim input) ''@''
       \<and> handleCommand perform home input w =
           (case perform a w of
              (None, w') \<Rightarrow> (Inr (), [Did a], w')
            | (Some e, w') \<Rightarrow> (Inr (), [Did a, Out (ErrorExecutingCommand (message e))], w'))"
proof -
  from assms(1) obtain cs where input: "input = CHR ''@'' # cs"
    by (auto simp: startsWith_def prefix_def)
  obtain tw where tw: "trim input = CHR ''@'' # tw"
    using trim_Cons_nonspace[OF at_not_space] input by blast
  obtain cw where cw: "hd (split_sp input) = CHR ''@'' # cw"
    using hd_split_sp_Cons[of "CHR ''@''" cs] input by auto
  have named: "namedCommand (hd (split_sp input)) (tl (split_sp input)) = None"
    by (simp add: cw namedCommand_at)
  have sig: "sigilMode (hd (split_sp (drop 1 input))) (join_sp (tl (split_sp (drop 1 input)))) = None"
    using assms(2) by (simp add: sigilMode_def)
  have nobang: "\<not> startsWith input ''!''"
    by (simp add: input startsWith_def)
  have "tryBody perform home input w = call perform a w"
    using assms(1) nobang sig named cw tw
    by (simp add: tryBody_def Let_def assms(3))
  then have "handleCommand perform home input w =
           (case perform a w of
              (None, w') \<Rightarrow> (Inr (), [Did a], w')
            | (Some e, w') \<Rightarrow> (Inr (), [Did a, Out (ErrorExecutingCommand (message e))], w'))"
    by (rule call_handle)
  moreover have "startsWith (trim input) ''@''"
    by (simp add: tw startsWith_def)
  ultimately show ?thesis using named by simp
qed

theorem unknown_sigil_falls_through_witness:
  "handleCommand (fail_with ''boom'') ''/home/u'' ''@deploy the new build to staging'' ()
     = (Inr (), [Did (ProcessNaturalLanguageCommand ''@deploy the new build to staging''),
                 Out (ErrorExecutingCommand ''boom'')], ())"
proof -
  have a: "startsWith ''@deploy the new build to staging'' ''@''"
    by code_simp
  have b: "hd (split_sp (drop 1 ''@deploy the new build to staging'')) \<notin>
           {''claude'', ''gemini'', ''local'', ''conv'', ''chat'', ''cmd'', ''command'', ''tool''}"
    by code_simp
  have c: "ProcessNaturalLanguageCommand ''@deploy the new build to staging'' =
      (if isConversationalInput (trim ''@deploy the new build to staging'')
       then HandleConversation (trim ''@deploy the new build to staging'')
       else ProcessNaturalLanguageCommand (trim ''@deploy the new build to staging''))"
    by code_simp
  from unknown_sigil_falls_through[OF a b c, of "fail_with ''boom''" "''/home/u''" "()"]
  show ?thesis
    by (simp add: fail_with_def)
qed




section \<open>Properties of the intent executor\<close>

text \<open>
  Claim C4, amended. A call with verb \<open>run\<close> (in any letter case) and a target ending in
  \<open>.sh\<close> on \<open>win32\<close> fails, and hands no command to \<open>runCommand\<close>: with the
  unsupported-target error when the script exists in the scripts directory, and with the
  script-not-found error when it does not, because existence is checked first.
\<close>

theorem run_sh_on_windows:
  assumes "toLowerCase verb = ''run''"
    and "endsWith target ''.sh''"
    and "osType env = ''win32''"
  shows "runIntent env verb target =
     (if fsExists env (pathJoin env (scriptsDir env) target)
      then (Inl (UnsupportedTarget
                  ''Shell scripts (.sh) not supported on Windows. Use .bat files instead.''), [])
      else (Inl (ScriptNotFound (''Script not found: '' @ target)), []))"
  using assms by (simp add: runIntent_def commandToExecute_def Let_def)

theorem run_sh_on_windows_witness:
  "runIntent (windows True) ''run'' ''script.sh'' =
     (Inl (UnsupportedTarget
            ''Shell scripts (.sh) not supported on Windows. Use .bat files instead.''), [])
   \<and> runIntent (windows False) ''RUN'' ''script.sh'' =
     (Inl (ScriptNotFound ''Script not found: script.sh''), [])"
proof -
  have a: "toLowerCase ''run'' = ''run''" by code_simp
  have a': "toLowerCase ''RUN'' = ''run''" by code_simp
  have b: "endsWith ''script.sh'' ''.sh''" by code_simp
  have c: "osType (windows True) = ''win32''" by (simp add: windows_def)
  have c': "osType (windows False) = ''win32''" by (simp add: windows_def)
  from run_sh_on_windows[OF a b c] run_sh_on_windows[OF a' b c'] show ?thesis
    by (simp add: windows_def)
qed

text \<open>
  Claim C4 as stated fails: on Windows, a \<open>.sh\<close> target that is not in the scripts directory
  fails with the script-not-found error, not with the unsupported-target error.
\<close>

theorem run_sh_on_windows_counterexample:
  "osType (windows False) = ''win32'' \<and> endsWith ''script.sh'' ''.sh''
   \<and> runIntent (windows False) ''run'' ''script.sh''
        = (Inl (ScriptNotFound ''Script not found: script.sh''), [])"
  by code_simp

section \<open>Properties of the resolver\<close>

lemma includes_prefix_mono: "prefix v w \<Longrightarrow> includes_str s w \<Longrightarrow> includes_str s v"
  by (induction s) (auto intro: prefix_order.trans)

lemma includes_toLowerCase:
  "includes_str s w \<Longrightarrow> includes_str (toLowerCase s) (toLowerCase w)"
  by (induction s) (auto simp: toLowerCase_def dest: map_mono_prefix[where f = toLowerChar])

lemma greeting_no_open:
  "taskLower \<in> set [''hi'', ''hello'', ''hey'', ''greetings'', ''good morning'',
                     ''good afternoon'', ''good evening''] \<Longrightarrow> \<not> includes_str taskLower ''open''"
  by auto

lemma smalltalk_no_open:
  "taskLower \<in> set [''how are you'', ''what's up'', ''how's it going''] \<Longrightarrow>
     \<not> includes_str taskLower ''open''"
  by auto

text \<open>
  Claim C6. The resolver is an ordered cascade and the first rule that matches answers. For
  every prompt that contains \<open>open\<close> (in any letter case) and whose lower-cased text does
  not contain \<open>thank\<close> (the two greeting rules before it match whole texts without
  \<open>open\<close>), the answer is the open action, whatever else the prompt contains, \<open>search\<close>
  included.
\<close>

theorem open_shadows_search:
  assumes "includes_str prompt ''open'' \<or> includes_str (toLowerCase prompt) ''open''"
    and "\<not> includes_str (toLowerCase prompt) ''thank''"
  shows "runPatternMatchingAI gen prompt
           = Inr (Computed (''@action: open '' @ openApp (toLowerCase prompt)))"
proof -
  have "toLowerCase ''open'' = ''open''"
    by (simp add: toLowerCase_def toLowerChar_def isUpper_def)
  then have op: "includes_str (toLowerCase prompt) ''open''"
    using assms(1) includes_toLowerCase[of prompt "''open''"] by auto
  have "\<not> includes_str (toLowerCase prompt) ''thanks''"
    using assms(2) includes_prefix_mono[of "''thank''" "''thanks''"] by auto
  moreover have "toLowerCase prompt \<notin> set [''hi'', ''hello'', ''hey'', ''greetings'', ''good morning'',
                     ''good afternoon'', ''good evening'']"
    using op greeting_no_open by blast
  moreover have "toLowerCase prompt \<notin> set [''how are you'', ''what's up'', ''how's it going'']"
    using op smalltalk_no_open by blast
  ultimately show ?thesis
    using op assms(2) by (simp add: runPatternMatchingAI_def Let_def)
qed

theorem open_shadows_search_witness:
  "includes_str (toLowerCase ''Search the web and open Excel'') ''search''
   \<and> runPatternMatchingAI (generateCode machine) ''Search the web and open Excel''
       = Inr (Computed ''@action: open excel'')"
proof -
  have a: "includes_str ''Search the web and open Excel'' ''open''
           \<or> includes_str (toLowerCase ''Search the web and open Excel'') ''open''"
    by code_simp
  have b: "\<not> includes_str (toLowerCase ''Search the web and open Excel'') ''thank''"
    by code_simp
  have c: "includes_str (toLowerCase ''Search the web and open Excel'') ''search''"
    by code_simp
  have d: "openApp (toLowerCase ''Search the web and open Excel'') = ''excel''"
    by code_simp
  from open_shadows_search[OF a b, of "generateCode machine"] c d show ?thesis
    by simp
qed


section \<open>Properties of the session and the retry supervisor\<close>

lemma init_ready:
  "initLocalModel env lm = (Inr u, lm', evs) \<Longrightarrow> isReady lm'"
  by (auto simp: initLocalModel_def isReady_def Let_def split: if_splits sum.splits option.splits)

text \<open>
  Claim C8. When a session exists and is ready, \<open>initLocalModel\<close> returns at once: nothing is
  listed, loaded or waited for, and the session is the same. Every successful call leaves a
  ready session, so of two calls in sequence only the first loads.
\<close>

theorem initLocalModel_idempotent:
  "(isReady lm \<longrightarrow> initLocalModel env lm = (Inr (), lm, []))
   \<and> (initLocalModel env lm = (Inr u, lm', evs) \<longrightarrow> initLocalModel env' lm' = (Inr (), lm', []))"
proof -
  have "initLocalModel env' lm' = (Inr (), lm', [])" if "initLocalModel env lm = (Inr u, lm', evs)"
  proof -
    have "isReady lm'"
      using that by (rule init_ready)
    then show ?thesis
      by (simp add: initLocalModel_def)
  qed
  moreover have "initLocalModel env lm = (Inr (), lm, [])" if "isReady lm"
    using that by (simp add: initLocalModel_def)
  ultimately show ?thesis by blast
qed

theorem initLocalModel_idempotent_witness:
  "initLocalModel machine None =
     (Inr (),
      Some \<lparr>modelPath = ''/home/u/.c9ai/models/phi-3.gguf'', modelFile = ''phi-3.gguf'',
            session = Some (), ready = True, fallbackMode = False\<rparr>,
      [ReadDir ''/home/u/.c9ai/models'', LoadModel ''/home/u/.c9ai/models/phi-3.gguf''])
   \<and> initLocalModel machine
        (Some \<lparr>modelPath = ''/home/u/.c9ai/models/phi-3.gguf'', modelFile = ''phi-3.gguf'',
               session = Some (), ready = True, fallbackMode = False\<rparr>) =
     (Inr (),
      Some \<lparr>modelPath = ''/home/u/.c9ai/models/phi-3.gguf'', modelFile = ''phi-3.gguf'',
            session = Some (), ready = True, fallbackMode = False\<rparr>,
      [])"
proof -
  have first: "initLocalModel machine None =
     (Inr (),
      Some \<lparr>modelPath = ''/home/u/.c9ai/models/phi-3.gguf'', modelFile = ''phi-3.gguf'',
            session = Some (), ready = True, fallbackMode = False\<rparr>,
      [ReadDir ''/home/u/.c9ai/models'', LoadModel ''/home/u/.c9ai/models/phi-3.gguf''])"
    by code_simp
  from initLocalModel_idempotent[of None machine "()" _ _ machine] first show ?thesis
    by simp
qed

lemma attempts_append: "attempts (xs @ ys) = attempts xs + attempts ys"
  by (simp add: attempts_def)

lemma attempts_Sleep: "attempts (Sleep n # evs) = attempts evs"
  by (simp add: attempts_def)

lemma attempts_init: "initLocalModel env lm = (r, lm', evs) \<Longrightarrow> attempts evs = 0"
  by (auto simp: initLocalModel_def attempts_def Let_def
           split: if_splits sum.splits option.splits)

lemma attempts_ensureReady: "ensureReady env lm = (r, lm', evs) \<Longrightarrow> attempts evs = 0"
  by (auto simp: ensureReady_def attempts_def dest: attempts_init split: if_splits)

lemma attempts_attempt: "attempt env prompt k lm = (r, evs) \<Longrightarrow> attempts evs \<le> 1"
  by (auto simp: attempt_def attempts_def split: if_splits sum.splits option.splits)

lemma attempt_event:
  "attempt env prompt k lm = (r, [a]) \<Longrightarrow> a = RealAttempt \<or> a = PatternAttempt"
  by (auto simp: attempt_def split: if_splits sum.splits option.splits)

lemma ensureReady_ready: "isReady lm \<Longrightarrow> ensureReady env lm = (Inr (), lm, [])"
  by (simp add: ensureReady_def)

lemma attempts_bound:
  "attempts (snd (snd (runLocalAI env prompt r lm))) \<le> Suc (maxRetries env - r)"
proof (induction env prompt r lm rule: runLocalAI.induct)
  case (1 env prompt retryCount lm)
  obtain r0 lm1 ev0 where er: "ensureReady env lm = (r0, lm1, ev0)"
    by (cases "ensureReady env lm") auto
  then have a0: "attempts ev0 = 0"
    by (rule attempts_ensureReady)
  show ?case
  proof (cases r0)
    case (Inl m)
    then show ?thesis
      using er a0 by (subst runLocalAI.simps) simp
  next
    case (Inr u)
    obtain r1 ev1 where at: "attempt env prompt retryCount lm1 = (r1, ev1)"
      by (cases "attempt env prompt retryCount lm1") auto
    then have a1: "attempts ev1 \<le> 1"
      by (rule attempts_attempt)
    show ?thesis
    proof (cases r1)
      case (Inr response)
      then show ?thesis
        using er a0 at a1 \<open>r0 = Inr u\<close>
        by (subst runLocalAI.simps) (simp add: attempts_append)
    next
      case (Inl msg)
      show ?thesis
      proof (cases "retryCount < maxRetries env")
        case True
        have ih: "attempts (snd (snd (runLocalAI env prompt (retryCount + 1) lm1)))
                    \<le> Suc (maxRetries env - (retryCount + 1))"
          using "1.IH"[OF er[symmetric, unfolded \<open>r0 = Inr u\<close>] refl refl at[symmetric, unfolded Inl] refl True] .
        obtain r2 lm2 ev2 where rec: "runLocalAI env prompt (retryCount + 1) lm1 = (r2, lm2, ev2)"
          by (cases "runLocalAI env prompt (retryCount + 1) lm1") auto
        have sl: "attempts [Sleep 1000] = 0"
          by (simp add: attempts_def)
        have "runLocalAI env prompt retryCount lm = (r2, lm2, ev0 @ ev1 @ [Sleep 1000] @ ev2)"
          using er at \<open>r0 = Inr u\<close> Inl True rec
          by (subst runLocalAI.simps) simp
        then show ?thesis
          using ih rec a0 a1 sl True by (simp add: attempts_append attempts_Sleep)
      next
        case False
        then show ?thesis
          using er a0 at a1 \<open>r0 = Inr u\<close> Inl
          by (subst runLocalAI.simps) (simp add: attempts_append)
      qed
    qed
  qed
qed

lemma exhaust:
  assumes "isReady lm"
    and "\<forall>k. \<exists>msg. attempt env prompt k lm = (Inl msg, [a])"
  shows "n = maxRetries env - r \<Longrightarrow> r \<le> maxRetries env \<Longrightarrow>
     \<exists>msg. runLocalAI env prompt r lm =
       (Inl (''Local AI failed after '' @ decimal (maxRetries env) @ '' attempts: '' @ msg),
        lm, a # concat (replicate n [Sleep 1000, a]))"
proof (induction n arbitrary: r)
  case 0
  then have last: "\<not> r < maxRetries env"
    by simp
  obtain msg where "attempt env prompt r lm = (Inl msg, [a])"
    using assms(2) by blast
  then have "runLocalAI env prompt r lm =
       (Inl (''Local AI failed after '' @ decimal (maxRetries env) @ '' attempts: '' @ msg),
        lm, [a])"
    using ensureReady_ready[OF assms(1), of env] last
    by (subst runLocalAI.simps) simp
  then show ?case by simp
next
  case (Suc n)
  then have more: "r < maxRetries env" and n: "n = maxRetries env - (r + 1)"
    and le: "r + 1 \<le> maxRetries env"
    by simp_all
  obtain msg' where rec: "runLocalAI env prompt (r + 1) lm =
       (Inl (''Local AI failed after '' @ decimal (maxRetries env) @ '' attempts: '' @ msg'),
        lm, a # concat (replicate n [Sleep 1000, a]))"
    using Suc.IH[OF n le] by blast
  obtain msg where "attempt env prompt r lm = (Inl msg, [a])"
    using assms(2) by blast
  then have "runLocalAI env prompt r lm =
       (Inl (''Local AI failed after '' @ decimal (maxRetries env) @ '' attempts: '' @ msg'),
        lm, [a] @ [Sleep 1000] @ a # concat (replicate n [Sleep 1000, a]))"
    using ensureReady_ready[OF assms(1), of env] more rec
    by (subst runLocalAI.simps) simp
  then show ?case by simp
qed

lemma attempts_pattern:
  "a = RealAttempt \<or> a = PatternAttempt \<Longrightarrow>
     attempts (a # concat (replicate n [Sleep 1000, a])) = Suc n"
  by (induction n) (auto simp: attempts_def)

lemma ensureReady_isReady: "ensureReady env lm = (Inr u, lm1, ev0) \<Longrightarrow> isReady lm1"
  by (auto simp: ensureReady_def dest: init_ready split: if_splits)

lemma run_after_load:
  assumes "ensureReady env lm = (Inr u, lm1, ev0)"
  shows "runLocalAI env prompt r lm =
           (case runLocalAI env prompt r lm1 of (res, lm2, evs) \<Rightarrow> (res, lm2, ev0 @ evs))"
proof -
  have "isReady lm1"
    using assms by (rule ensureReady_isReady)
  then have er: "ensureReady env lm1 = (Inr (), lm1, [])"
    by (rule ensureReady_ready)
  show ?thesis
    by (simp add: runLocalAI.simps[of env prompt r lm] runLocalAI.simps[of env prompt r lm1]
                  assms er split: prod.splits sum.splits)
qed

lemma run_load_failed:
  assumes "ensureReady env lm = (Inl m, lm1, ev0)"
  shows "runLocalAI env prompt r lm = (Inl m, lm1, ev0)"
  by (simp add: runLocalAI.simps[of env prompt r lm] assms)

text \<open>
  Claim C3, amended. \<open>runLocalAI\<close> first loads the model when no session is ready; if the
  load fails it throws the load error without attempting inference. Otherwise, when the
  inference call fails on every attempt, it makes \<open>maxRetries + 1\<close> attempts (the first and
  \<open>maxRetries\<close> retries, four with the constructor's value 3), waits 1000 ms before each
  retry, and then throws to its caller without retrying further. In no run does it make more
  than \<open>maxRetries + 1\<close> attempts.
\<close>

theorem retry_bound:
  assumes "ensureReady env lm = (r, lm1, ev0)"
  shows "(\<forall>m. r = Inl m \<longrightarrow>
            runLocalAI env prompt 0 lm = (Inl m, lm1, ev0) \<and> attempts ev0 = 0)
       \<and> (\<forall>u. r = Inr u \<and> (\<forall>k. \<exists>msg. attempt env prompt k lm1 = (Inl msg, [a])) \<longrightarrow>
            snd (snd (runLocalAI env prompt 0 lm))
              = ev0 @ a # concat (replicate (maxRetries env) [Sleep 1000, a])
            \<and> attempts (snd (snd (runLocalAI env prompt 0 lm))) = maxRetries env + 1
            \<and> fst (snd (runLocalAI env prompt 0 lm)) = lm1
            \<and> (\<exists>msg. fst (runLocalAI env prompt 0 lm) =
                  Inl (''Local AI failed after '' @ decimal (maxRetries env)
                       @ '' attempts: '' @ msg)))
       \<and> attempts (snd (snd (runLocalAI env2 prompt2 0 lm2))) \<le> maxRetries env2 + 1"
proof -
  have bound: "attempts (snd (snd (runLocalAI env2 prompt2 0 lm2))) \<le> maxRetries env2 + 1"
    using attempts_bound[of env2 prompt2 0 lm2] by simp
  have a0: "attempts ev0 = 0"
    using assms by (rule attempts_ensureReady)
  have failed: "runLocalAI env prompt 0 lm = (Inl m, lm1, ev0) \<and> attempts ev0 = 0" if "r = Inl m" for m
    using that assms a0 run_load_failed by blast
  have exhausted:
    "snd (snd (runLocalAI env prompt 0 lm))
              = ev0 @ a # concat (replicate (maxRetries env) [Sleep 1000, a])
     \<and> attempts (snd (snd (runLocalAI env prompt 0 lm))) = maxRetries env + 1
     \<and> fst (snd (runLocalAI env prompt 0 lm)) = lm1
     \<and> (\<exists>msg. fst (runLocalAI env prompt 0 lm) =
            Inl (''Local AI failed after '' @ decimal (maxRetries env) @ '' attempts: '' @ msg))"
    if "r = Inr u" and fails: "\<forall>k. \<exists>msg. attempt env prompt k lm1 = (Inl msg, [a])" for u
  proof -
    have er: "ensureReady env lm = (Inr u, lm1, ev0)"
      using assms that(1) by simp
    then have ready: "isReady lm1"
      by (rule ensureReady_isReady)
    obtain msg where run1: "runLocalAI env prompt 0 lm1 =
       (Inl (''Local AI failed after '' @ decimal (maxRetries env) @ '' attempts: '' @ msg),
        lm1, a # concat (replicate (maxRetries env) [Sleep 1000, a]))"
      using exhaust[OF ready fails, of "maxRetries env" 0] by auto
    have run: "runLocalAI env prompt 0 lm =
       (Inl (''Local AI failed after '' @ decimal (maxRetries env) @ '' attempts: '' @ msg),
        lm1, ev0 @ a # concat (replicate (maxRetries env) [Sleep 1000, a]))"
      using run_after_load[OF er, of prompt 0] run1 by simp
    obtain m where "attempt env prompt 0 lm1 = (Inl m, [a])"
      using fails by blast
    then have "a = RealAttempt \<or> a = PatternAttempt"
      by (rule attempt_event)
    then have "attempts (a # concat (replicate (maxRetries env) [Sleep 1000, a])) = maxRetries env + 1"
      using attempts_pattern by simp
    then have "attempts (ev0 @ a # concat (replicate (maxRetries env) [Sleep 1000, a]))
                 = maxRetries env + 1"
      using a0 by (simp add: attempts_append)
    then show ?thesis
      using run by simp
  qed
  show ?thesis
    using bound failed exhausted by blast
qed

theorem retry_bound_witness:
  "attempts (snd (snd (runLocalAI machine ''open excel'' 0 None))) = 4
   \<and> snd (snd (runLocalAI machine ''open excel'' 0 None)) =
       [ReadDir ''/home/u/.c9ai/models'', LoadModel ''/home/u/.c9ai/models/phi-3.gguf'',
        RealAttempt, Sleep 1000, RealAttempt, Sleep 1000, RealAttempt, Sleep 1000, RealAttempt]
   \<and> runLocalAI unreadable ''open excel'' 0 None
       = (Inl ''ENOENT'', None, [ReadDir ''/home/u/.c9ai/models''])"
proof -
  have l: "loaded = Some \<lparr>modelPath = ''/home/u/.c9ai/models/phi-3.gguf'',
              modelFile = ''phi-3.gguf'', session = Some (), ready = True, fallbackMode = False\<rparr>"
    by code_simp
  have e: "ensureReady machine None =
             (Inr (), loaded,
              [ReadDir ''/home/u/.c9ai/models'', LoadModel ''/home/u/.c9ai/models/phi-3.gguf''])"
    by code_simp
  have b: "\<forall>k. \<exists>msg. attempt machine ''open excel'' k loaded = (Inl msg, [RealAttempt])"
    by (simp add: l attempt_def machine_def)
  have c: "maxRetries machine = 3"
    by (simp add: machine_def)
  have r: "replicate 3 [Sleep 1000, RealAttempt]
             = [[Sleep 1000, RealAttempt], [Sleep 1000, RealAttempt], [Sleep 1000, RealAttempt]]"
    by (simp add: numeral_3_eq_3)
  note t = retry_bound[OF e, of "''open excel''" RealAttempt]
  from t b have "attempts (snd (snd (runLocalAI machine ''open excel'' 0 None)))
                 = maxRetries machine + 1"
    by blast
  then have one: "attempts (snd (snd (runLocalAI machine ''open excel'' 0 None))) = 4"
    using c by simp
  from t b have "snd (snd (runLocalAI machine ''open excel'' 0 None))
                 = [ReadDir ''/home/u/.c9ai/models'', LoadModel ''/home/u/.c9ai/models/phi-3.gguf'']
                   @ RealAttempt # concat (replicate (maxRetries machine) [Sleep 1000, RealAttempt])"
    by blast
  then have two: "snd (snd (runLocalAI machine ''open excel'' 0 None)) =
       [ReadDir ''/home/u/.c9ai/models'', LoadModel ''/home/u/.c9ai/models/phi-3.gguf'',
        RealAttempt, Sleep 1000, RealAttempt, Sleep 1000, RealAttempt, Sleep 1000, RealAttempt]"
    using c r by simp
  have e': "ensureReady unreadable None
              = (Inl ''ENOENT'', None, [ReadDir ''/home/u/.c9ai/models''])"
    by code_simp
  from retry_bound[OF e', of "''open excel''"]
  have three: "runLocalAI unreadable ''open excel'' 0 None
       = (Inl ''ENOENT'', None, [ReadDir ''/home/u/.c9ai/models''])"
    by blast
  from one two three show ?thesis
    by blast
qed

text \<open>
  Claim C3 as stated fails: with \<open>maxRetries = 3\<close> and an inference call that always fails,
  a fresh process loads the model and then makes four attempts, not at most three, before
  it throws.
\<close>

theorem retry_bound_counterexample:
  "maxRetries machine = 3
   \<and> attempts (snd (snd (runLocalAI machine ''open excel'' 0 None))) = 4
   \<and> runLocalAI machine ''open excel'' 0 None =
       (Inl ''Local AI failed after 3 attempts: Local AI timeout after 30 seconds'',
        loaded,
        [ReadDir ''/home/u/.c9ai/models'', LoadModel ''/home/u/.c9ai/models/phi-3.gguf'',
         RealAttempt, Sleep 1000, RealAttempt, Sleep 1000, RealAttempt, Sleep 1000, RealAttempt])"
  by code_simp

section \<open>Properties of the learned mappings\<close>

lemma get1_ObjectFn: "get1 h t a = Some ObjectFn \<Longrightarrow> t a = None \<and> a = ''constructor''"
  by (simp add: get1_def split: option.splits if_splits)

lemma get1_ObjectProto:
  "get1 h t a = Some ObjectProto \<Longrightarrow> t a = None \<and> a \<noteq> ''constructor'' \<and> a = ''__proto__''"
  by (simp add: get1_def split: option.splits if_splits)

lemma get1_Inherited:
  "get1 h t a = Some (Inherited q e) \<Longrightarrow>
     t a = None \<and> a \<noteq> ''constructor'' \<and> a \<noteq> ''__proto__'' \<and> platformOf a = Some q
     \<and> onPrototype h q = Some e"
  by (simp add: get1_def split: option.splits if_splits)

lemma lookup2_own:
  "t a = Some obj \<Longrightarrow> obj p = Some v \<Longrightarrow> truthy v \<Longrightarrow> lookup2 h t a p = Some v"
  by (simp add: lookup2_def get1_def get2_def)

lemma store2_lookup2:
  assumes "store2 h t a p v = Inr (h', t')" and "truthy v"
  shows "lookup2 h' t' a p = Some v"
proof (cases "get1 h t a")
  case None
  then have "t' = t(a \<mapsto> [p \<mapsto> v])"
    using assms(1) by (simp add: store2_def)
  then show ?thesis
    using assms(2) by (simp add: lookup2_own)
next
  case (Some x)
  show ?thesis
  proof (cases x)
    case (Own obj)
    then have "t' = t(a \<mapsto> obj(p \<mapsto> v))"
      using assms(1) Some by (simp add: store2_def)
    then show ?thesis
      using assms(2) by (simp add: lookup2_own)
  next
    case ObjectFn
    then have a: "t a = None \<and> a = ''constructor''"
      using Some get1_ObjectFn by blast
    have "h' = h\<lparr>onObject := (onObject h)(p \<mapsto> v)\<rparr>" "t' = t"
      using assms(1) Some ObjectFn by (simp_all add: store2_def)
    then show ?thesis
      using a assms(2) by (clarsimp simp: lookup2_def get1_def get2_def)
  next
    case ObjectProto
    then have a: "t a = None \<and> a \<noteq> ''constructor'' \<and> a = ''__proto__''"
      using Some get1_ObjectProto by blast
    have "h' = h\<lparr>onPrototype := (onPrototype h)(p \<mapsto> v)\<rparr>" "t' = t"
      using assms(1) Some ObjectProto by (simp_all add: store2_def)
    then show ?thesis
      using a assms(2) by (clarsimp simp: lookup2_def get1_def get2_def)
  next
    case (Inherited q e)
    then have a: "t a = None \<and> a \<noteq> ''constructor'' \<and> a \<noteq> ''__proto__''
                  \<and> platformOf a = Some q \<and> onPrototype h q = Some e"
      using Some get1_Inherited by blast
    show ?thesis
    proof (cases e)
      case (Text s)
      then have "t' = t(a \<mapsto> [p \<mapsto> v])"
        using assms(1) Some Inherited by (simp add: store2_def split: if_splits)
      then show ?thesis
        using assms(2) by (simp add: lookup2_own)
    next
      case (Record c er ts extras)
      then have "h' = h\<lparr>onPrototype := (onPrototype h)(q \<mapsto> Record c er ts ((p, v) # extras))\<rparr>"
        "t' = t"
        using assms(1) Some Inherited by (simp_all add: store2_def)
      then show ?thesis
        using a assms(2) by (clarsimp simp: lookup2_def get1_def get2_def)
    qed
  qed
qed

lemma tryAlternatives_learned:
  "tryAlternatives env st appLower ss = (st', Some exe, evs) \<Longrightarrow> \<forall>s \<in> set ss. s \<noteq> [] \<Longrightarrow>
     learned st' appLower (osPlatform env) = Some (Text exe)"
proof (induction ss arbitrary: evs)
  case Nil
  then show ?case by simp
next
  case (Cons s ss)
  have ih: "\<And>evs'. tryAlternatives env st appLower ss = (st', Some exe, evs') \<Longrightarrow>
              learned st' appLower (osPlatform env) = Some (Text exe)"
    using Cons.IH Cons.prems(2) by simp
  show ?case
  proof (cases "getApplicationCommand st s (osPlatform env)")
    case (Record c e t extras)
    then show ?thesis
      using Cons.prems(1) ih by simp
  next
    case (Text altCommand)
    show ?thesis
    proof (cases "run env altCommand")
      case (Some msg)
      then show ?thesis
        using Cons.prems(1) ih Text by (auto split: prod.splits)
    next
      case None
      show ?thesis
      proof (cases "successful_mappings st")
        case nosm: None
        then show ?thesis
          using Cons.prems(1) ih Text None by (auto split: prod.splits)
      next
        case (Some table)
        show ?thesis
        proof (cases "store2 (objects st) table appLower (osPlatform env) (Text s)")
          case (Inl u)
          then show ?thesis
            using Cons.prems(1) ih Text None Some by (auto split: prod.splits)
        next
          case (Inr r)
          obtain h table' where r: "r = (h, table')"
            by (cases r) auto
          have ne: "truthy (Text s)"
            using Cons.prems(2) by simp
          have "lookup2 h table' appLower (osPlatform env) = Some (Text s)"
            using store2_lookup2[OF Inr[unfolded r] ne] .
          moreover have "st' = st\<lparr>objects := h, successful_mappings := Some table'\<rparr>" "exe = s"
            using Cons.prems(1) Text None Some Inr r by simp_all
          ultimately show ?thesis
            by (simp add: learned_def)
        qed
      qed
    qed
  qed
qed

lemma suggestions_nonempty:
  "suggestApplicationAlternatives h a p = Inr xs \<Longrightarrow> s \<in> set xs \<Longrightarrow> s \<noteq> []"
  by (auto simp: suggestApplicationAlternatives_def alternatives_def spread_def
           split: option.splits if_splits entry.splits)

lemma logFailureAndLearn_learned:
  assumes "logFailureAndLearn env st toolName target command errorMessage = (st', Some exe, evs)"
  shows "\<exists>t. target = Some t \<and> learned st' (toLowerCase t) (osPlatform env) = Some (Text exe)"
proof (cases target)
  case None
  then show ?thesis
    using assms by (simp add: logFailureAndLearn_def Let_def)
next
  case (Some t)
  have tool: "toolName = ''open_application'' \<and> t \<noteq> []"
    using assms Some by (simp add: logFailureAndLearn_def Let_def split: if_splits)
  define failed where "failed = (case failed_attempts st of None \<Rightarrow> Map.empty | Some t \<Rightarrow> t)"
  define st0 where "st0 = st\<lparr>failed_attempts := Some failed\<rparr>"
  obtain h failed' where
    w: "store2 (objects st0) failed (toLowerCase t) (osPlatform env)
          (Record command errorMessage (now env) []) = Inr (h, failed')"
    using assms Some tool
    by (cases "store2 (objects st0) failed (toLowerCase t) (osPlatform env)
                 (Record command errorMessage (now env) [])")
       (auto simp: logFailureAndLearn_def Let_def failed_def st0_def)
  obtain ss where sug: "suggestApplicationAlternatives h (toLowerCase t) (osPlatform env) = Inr ss"
    using assms Some tool w
    by (cases "suggestApplicationAlternatives h (toLowerCase t) (osPlatform env)")
       (auto simp: logFailureAndLearn_def Let_def failed_def st0_def)
  have run: "tryAlternatives env (st0\<lparr>objects := h, failed_attempts := Some failed'\<rparr>)
               (toLowerCase t) ss = (st', Some exe, evs)"
    using assms Some tool w sug
    by (simp add: logFailureAndLearn_def Let_def failed_def st0_def)
  have "\<forall>s \<in> set ss. s \<noteq> []"
    using suggestions_nonempty[OF sug] by blast
  from tryAlternatives_learned[OF run this] Some show ?thesis
    by simp
qed

text \<open>
  The tables are objects, so an alias can name what every object inherits: after a failed
  attempt for the alias \<open>constructor\<close> the record is on the global \<open>Object\<close>, nothing is
  learned, and the next lookup of that alias finds the record through the applications table.
\<close>

lemma inherited_constructor_example:
  "snd (logFailureAndLearn desktop unmapped ''open_application'' (Some ''constructor'')
          ''xdg-open constructor'' ''command not found'') = (None, [])
   \<and> getApplicationCommand
       (fst (logFailureAndLearn desktop unmapped ''open_application'' (Some ''constructor'')
               ''xdg-open constructor'' ''command not found''))
       ''constructor'' Linux
     = Record ''xdg-open constructor'' ''command not found'' ''2025-01-01T00:00:00.000Z'' []"
  by code_simp

text \<open>
  Claim C9 as stated fails where the \<open>applications\<close> table has an entry: the lookup tests
  that table before the learned mappings. Here the table's \<open>galculator\<close> fails,
  \<open>gnome-calculator\<close> starts and is learned, and the next lookup still returns \<open>galculator\<close>.
\<close>

theorem learned_mapping_preferred_counterexample:
  "learned
     (fst (logFailureAndLearn desktop mapped ''open_application'' (Some ''calculator'')
             ''galculator'' ''command not found''))
     ''calculator'' Linux = Some (Text ''gnome-calculator'')
   \<and> getApplicationCommand
       (fst (logFailureAndLearn desktop mapped ''open_application'' (Some ''calculator'')
               ''galculator'' ''command not found''))
       ''calculator'' Linux = Text ''galculator''"
  by code_simp

text \<open>
  Claim C9, amended. Once an alias is recorded with an alternative executable for a platform
  under \<open>successful_mappings\<close>, as \<open>logFailureAndLearn\<close> records it when an alternative
  starts, every lookup of that alias on that platform for which the lookup in the
  \<open>applications\<close> table finds nothing (no entry of its own and none inherited) returns the
  command built from the learned executable (the executable itself outside macOS and
  Windows), not the default; the lookup runs no command. What the \<open>applications\<close> table
  finds comes first.
\<close>

theorem learned_mapping_preferred:
  assumes "lookup2 (objects st) (appMappings st) (toLowerCase alias) platform = None"
    and "learned st (toLowerCase alias) platform = Some (Text exe)"
  shows "getApplicationCommand st alias platform = launch platform (Text exe)
       \<and> (platform \<noteq> Darwin \<and> platform \<noteq> Win32 \<longrightarrow>
            getApplicationCommand st alias platform = Text exe)
       \<and> (logFailureAndLearn env st0 toolName target command errorMessage = (st1, Some exe1, evs)
            \<longrightarrow> (\<exists>t. target = Some t
                      \<and> learned st1 (toLowerCase t) (osPlatform env) = Some (Text exe1)))"
proof -
  have "getApplicationCommand st alias platform = launch platform (Text exe)"
    using assms by (simp add: getApplicationCommand_def Let_def)
  moreover from this
  have "getApplicationCommand st alias platform = Text exe"
    if "platform \<noteq> Darwin \<and> platform \<noteq> Win32"
    using that by (simp add: launch_def)
  ultimately show ?thesis
    using logFailureAndLearn_learned by blast
qed

theorem learned_mapping_preferred_witness:
  "fst (snd (logFailureAndLearn desktop unmapped ''open_application'' (Some ''Calculator'')
               ''xdg-open Calculator'' ''command not found'')) = Some ''gnome-calculator''
   \<and> getApplicationCommand
       (fst (logFailureAndLearn desktop unmapped ''open_application'' (Some ''Calculator'')
               ''xdg-open Calculator'' ''command not found''))
       ''calculator'' Linux = Text ''gnome-calculator''"
proof -
  have l: "fst (snd (logFailureAndLearn desktop unmapped ''open_application'' (Some ''Calculator'')
               ''xdg-open Calculator'' ''command not found'')) = Some ''gnome-calculator''"
    by code_simp
  have a: "lookup2
             (objects (fst (logFailureAndLearn desktop unmapped ''open_application''
                              (Some ''Calculator'') ''xdg-open Calculator'' ''command not found'')))
             (appMappings (fst (logFailureAndLearn desktop unmapped ''open_application''
                              (Some ''Calculator'') ''xdg-open Calculator'' ''command not found'')))
             (toLowerCase ''calculator'') Linux = None"
    by code_simp
  have b: "learned
             (fst (logFailureAndLearn desktop unmapped ''open_application'' (Some ''Calculator'')
                     ''xdg-open Calculator'' ''command not found''))
             (toLowerCase ''calculator'') Linux = Some (Text ''gnome-calculator'')"
    by code_simp
  from learned_mapping_preferred[OF a b] have
    "getApplicationCommand
       (fst (logFailureAndLearn desktop unmapped ''open_application'' (Some ''Calculator'')
               ''xdg-open Calculator'' ''command not found''))
       ''calculator'' Linux = Text ''gnome-calculator''"
    by blast
  with l show ?thesis
    by blast
qed

end
